theory Spec2Isabelle
  imports Complex_Main "HOL-Library.Sublist"
begin

section \<open>JavaScript string primitives used by the route and the page\<close>

text \<open>
  Strings are lists of characters. A character stands for one code unit below 256, so
  the white space recognised by \<open>String.prototype.trim\<close> and by \<open>\s\<close> is, in this
  range, TAB, LF, VT, FF, CR, SPACE and NBSP.
\<close>

definition isWhiteSpace :: "char \<Rightarrow> bool" where
  "isWhiteSpace c =
     (c = CHR 0x09 \<or> c = CHR 0x0A \<or> c = CHR 0x0B \<or> c = CHR 0x0C \<or> c = CHR 0x0D
      \<or> c = CHR 0x20 \<or> c = CHR 0xA0)"

text \<open>\<open>s.trim()\<close>\<close>

definition trim :: "string \<Rightarrow> string" where
  "trim s = rev (dropWhile isWhiteSpace (rev (dropWhile isWhiteSpace s)))"

text \<open>\<open>s.startsWith(p)\<close>\<close>

fun startsWith :: "string \<Rightarrow> string \<Rightarrow> bool" where
  "startsWith s [] = True"
| "startsWith [] (p # ps) = False"
| "startsWith (c # cs) (p # ps) = (c = p \<and> startsWith cs ps)"

text \<open>\<open>s.includes(p)\<close>\<close>

fun includes_js :: "string \<Rightarrow> string \<Rightarrow> bool" where
  "includes_js [] p = (p = [])"
| "includes_js (c # cs) p = (startsWith (c # cs) p \<or> includes_js cs p)"

text \<open>\<open>s.split('\n')\<close>: never empty, one more piece than there are line feeds.\<close>

fun split_lines :: "string \<Rightarrow> string list" where
  "split_lines [] = [[]]"
| "split_lines (c # cs) =
     (if c = CHR 0x0A then [] # split_lines cs
      else (case split_lines cs of [] \<Rightarrow> [[c]] | l # ls \<Rightarrow> (c # l) # ls))"

text \<open>
  The first occurrence of a search string: the text before it and the text after it,
  or nothing when the search string does not occur.
\<close>

fun firstMatch :: "string \<Rightarrow> string \<Rightarrow> (string \<times> string) option" where
  "firstMatch p [] = (if p = [] then Some ([], []) else None)"
| "firstMatch p (c # cs) =
     (if startsWith (c # cs) p then Some ([], drop (length p) (c # cs))
      else (case firstMatch p cs of None \<Rightarrow> None
            | Some (pre, fol) \<Rightarrow> Some (c # pre, fol)))"

text \<open>
  The replacement text of \<open>String.prototype.replace\<close> is a template: \<open>$$\<close> stands for
  a dollar sign, \<open>$&\<close> for the matched text, \<open>$`\<close> for the text before the match and
  \<open>$'\<close> for the text after it. With a string pattern there are no capture groups, so
  every other character, a dollar sign before a digit included, stands for itself.
\<close>

fun getSubstitution :: "string \<Rightarrow> string \<Rightarrow> string \<Rightarrow> string \<Rightarrow> string" where
  "getSubstitution m pre fol [] = []"
| "getSubstitution m pre fol [c] = [c]"
| "getSubstitution m pre fol (c # d # r) =
     (if c = CHR ''$'' \<and> d = CHR ''$'' then CHR ''$'' # getSubstitution m pre fol r
      else if c = CHR ''$'' \<and> d = CHR ''&'' then m @ getSubstitution m pre fol r
      else if c = CHR ''$'' \<and> d = CHR 0x60 then pre @ getSubstitution m pre fol r
      else if c = CHR ''$'' \<and> d = CHR 0x27 then fol @ getSubstitution m pre fol r
      else c # getSubstitution m pre fol (d # r))"

text \<open>\<open>s.replace(p, r)\<close> for strings \<open>p\<close> and \<open>r\<close>: the first occurrence only.\<close>

definition replace :: "string \<Rightarrow> string \<Rightarrow> string \<Rightarrow> string" where
  "replace s p r =
     (case firstMatch p s of None \<Rightarrow> s
      | Some (pre, fol) \<Rightarrow> pre @ getSubstitution p pre fol r @ fol)"

text \<open>\<open>s.replace(/^-\s*/, '')\<close>\<close>

definition replace_dash :: "string \<Rightarrow> string" where
  "replace_dash s =
     (case s of [] \<Rightarrow> []
      | c # cs \<Rightarrow> if c = CHR ''-'' then dropWhile isWhiteSpace cs else s)"

text \<open>The decimal digits of \<open>${n}\<close> in a template literal, for a natural number.\<close>

fun decimal :: "nat \<Rightarrow> string" where
  "decimal n =
     (if n < 10 then [char_of (48 + n)]
      else decimal (n div 10) @ [char_of (48 + n mod 10)])"

declare decimal.simps [simp del]


section \<open>Errors, operations and the effects of a run\<close>

text \<open>
  A thrown value as the handlers read it: whether it is an \<open>Error\<close> instance, its
  \<open>status\<close> when that is a number, its \<open>error.type\<close> when that is a string, and its
  \<open>message\<close>, which is a string on every \<open>Error\<close>. A \<open>status\<close> or \<open>error.type\<close> that is
  missing, \<open>null\<close> or of another type is \<open>None\<close>, and so is a \<open>message\<close> that is missing
  or \<open>null\<close>: the comparisons and the optional chaining of the source read these alike. A
  thrown \<open>null\<close>, \<open>undefined\<close> or primitive value reads as the record with no field set.
\<close>

record js_error =
  is_Error :: bool
  status :: "int option"
  error_type :: "string option"
  message :: "string option"

text \<open>
  What \<open>retryWithBackoff\<close> throws: the value it caught, or the
  \<open>Error('Max retries exceeded')\<close> it creates after the loop.
\<close>

datatype thrown = Rethrown js_error | MaxRetriesExceeded

text \<open>
  The number that \<open>sleep\<close> is called with: a double that is an integer, or one of the
  values a product of doubles takes when it leaves their range.
\<close>

datatype js_number = Finite int | Infinity | NegInfinity | NaN

text \<open>
  The effects of a run are the invocations of the operation and the calls of \<open>sleep\<close>,
  in the order in which they happen. \<open>calls\<close> counts the invocations.
\<close>

datatype event = Invoke | Sleep js_number

record world =
  calls :: nat
  trace :: "event list"

definition world0 :: world where
  "world0 = \<lparr>calls = 0, trace = []\<rparr>"

text \<open>
  An operation \<open>fn: () => Promise<T>\<close> is the outcome of each of its invocations:
  \<open>fn n\<close> is what the invocation after \<open>n\<close> earlier ones does, a rejection (\<open>Inl\<close>) or a
  value (\<open>Inr\<close>).
\<close>

type_synonym 'a operation = "nat \<Rightarrow> js_error + 'a"

definition invoke :: "'a operation \<Rightarrow> world \<Rightarrow> (js_error + 'a) \<times> world" where
  "invoke fn w = (fn (calls w), w\<lparr>calls := calls w + 1, trace := trace w @ [Invoke]\<rparr>)"

definition sleep :: "js_number \<Rightarrow> world \<Rightarrow> world" where
  "sleep ms w = w\<lparr>trace := trace w @ [Sleep ms]\<rparr>"


section \<open>retryWithBackoff\<close>

definition isOverloaded :: "js_error \<Rightarrow> bool" where
  "isOverloaded error =
     (status error = Some 529 \<or> error_type error = Some ''overloaded_error''
      \<or> (case message error of None \<Rightarrow> False | Some m \<Rightarrow> includes_js m ''overloaded''))"

definition isRateLimit :: "js_error \<Rightarrow> bool" where
  "isRateLimit error =
     (status error = Some 429 \<or> error_type error = Some ''rate_limit_error'')"

text \<open>
  \<open>const delay = baseDelay * Math.pow(2, attempt)\<close>, in doubles, for a \<open>baseDelay\<close> that is
  an integer. \<open>Math.pow(2, attempt)\<close> is the power itself up to \<open>attempt = 1023\<close> and
  \<open>Infinity\<close> from 1024 on. The product of an integer and a power of two is exact as long
  as it is below \<open>2 ^ 1024\<close> in absolute value, and is the infinity of its sign from there
  on; the product of zero and \<open>Infinity\<close> is \<open>NaN\<close>.
\<close>

definition delay :: "int \<Rightarrow> nat \<Rightarrow> js_number" where
  "delay baseDelay attempt =
     (if attempt < 1024 then
        (if \<bar>baseDelay * 2 ^ attempt\<bar> < 2 ^ 1024 then Finite (baseDelay * 2 ^ attempt)
         else if 0 < baseDelay then Infinity else NegInfinity)
      else if baseDelay = 0 then NaN
      else if 0 < baseDelay then Infinity else NegInfinity)"

text \<open>
  The attempt loop, from the value \<open>attempt\<close> of the loop variable on. \<open>maxRetries\<close> and
  \<open>baseDelay\<close> are integers here; \<open>sleep\<close> records the delay it is asked for. The loop
  variable counts exactly: as a double it does so up to \<open>2 ^ 53\<close> iterations.
\<close>

function retry_loop ::
  "'a operation \<Rightarrow> int \<Rightarrow> int \<Rightarrow> nat \<Rightarrow> world \<Rightarrow> (thrown + 'a) \<times> world" where
  "retry_loop fn maxRetries baseDelay attempt w =
     (if int attempt < maxRetries then
        (case invoke fn w of
           (Inr v, w') \<Rightarrow> (Inr v, w')
         | (Inl error, w') \<Rightarrow>
             if (isOverloaded error \<or> isRateLimit error) \<and> int attempt < maxRetries - 1
             then retry_loop fn maxRetries baseDelay (attempt + 1)
                    (sleep (delay baseDelay attempt) w')
             else (Inl (Rethrown error), w'))
      else (Inl MaxRetriesExceeded, w))"
  by pat_completeness auto
termination
  by (relation "measure (\<lambda>(fn, maxRetries, baseDelay, attempt, w). nat (maxRetries - int attempt))")
     auto

declare retry_loop.simps [simp del]

definition retryWithBackoff ::
  "'a operation \<Rightarrow> int \<Rightarrow> int \<Rightarrow> world \<Rightarrow> (thrown + 'a) \<times> world" where
  "retryWithBackoff fn maxRetries baseDelay w = retry_loop fn maxRetries baseDelay 0 w"

text \<open>
  The classification in the words of the specification: overloaded is the status code
  529, the type tag \<open>overloaded_error\<close> or a message with \<open>overloaded\<close> somewhere in it;
  rate limited is the status code 429 or the type tag \<open>rate_limit_error\<close>.
\<close>

definition spec_overloaded :: "js_error \<Rightarrow> bool" where
  "spec_overloaded e =
     (status e = Some 529 \<or> error_type e = Some ''overloaded_error''
      \<or> (\<exists>m. message e = Some m \<and> sublist ''overloaded'' m))"

definition spec_rate_limited :: "js_error \<Rightarrow> bool" where
  "spec_rate_limited e =
     (status e = Some 429 \<or> error_type e = Some ''rate_limit_error'')"

definition spec_retryable :: "js_error \<Rightarrow> bool" where
  "spec_retryable e = (spec_overloaded e \<or> spec_rate_limited e)"


section \<open>The response parser of the page\<close>

text \<open>
  The records of \<open>page.tsx\<close>. An in-progress record is a \<open>Partial\<close> of its type:
  every field but the one it is created with may still be unset, and the cast at the push
  changes nothing at run time. The fields of \<open>TopPriority\<close> carry a prefix where a
  record above has a field of the same name.
\<close>

record Problem =
  title :: string
  mentionedIn :: "string option"
  impact :: "string option"
  evidence :: "string list option"

record Feature =
  feature :: string
  why :: "string option"
  effort :: "string option"
  priority :: "string option"

record TopPriority =
  what :: string
  tp_why :: string
  tp_impact :: string
  tp_evidence :: string

datatype section_tag = problems_section | features_section | topPriority_section

text \<open>The local variables of \<open>parseAnalysisResults\<close>.\<close>

record parser_state =
  problems :: "Problem list"
  features :: "Feature list"
  topPriority :: "TopPriority option"
  currentSection :: "section_tag option"
  currentProblem :: "Problem option"
  currentFeature :: "Feature option"
  currentEvidence :: "string list"

definition initial_state :: parser_state where
  "initial_state =
     \<lparr>problems = [], features = [], topPriority = None, currentSection = None,
      currentProblem = None, currentFeature = None, currentEvidence = []\<rparr>"

text \<open>
  \<open>if (currentProblem && currentProblem.title) { currentProblem.evidence = currentEvidence;
  problems.push(currentProblem); }\<close>
\<close>

definition pushProblem :: "parser_state \<Rightarrow> parser_state" where
  "pushProblem st =
     (case currentProblem st of
        None \<Rightarrow> st
      | Some p \<Rightarrow>
          if title p \<noteq> [] then
            (let p' = p\<lparr>evidence := Some (currentEvidence st)\<rparr>
             in st\<lparr>currentProblem := Some p', problems := problems st @ [p']\<rparr>)
          else st)"

text \<open>\<open>if (currentFeature && currentFeature.feature) { features.push(currentFeature); }\<close>\<close>

definition pushFeature :: "parser_state \<Rightarrow> parser_state" where
  "pushFeature st =
     (case currentFeature st of
        None \<Rightarrow> st
      | Some f \<Rightarrow> if feature f \<noteq> [] then st\<lparr>features := features st @ [f]\<rparr> else st)"

text \<open>\<open>line.replace(label, '').trim()\<close>\<close>

definition field_value :: "string \<Rightarrow> string \<Rightarrow> string" where
  "field_value line label = trim (replace line label [])"

text \<open>The first \<open>if\<close> chain of the loop body, on the lines of the problems section.\<close>

definition problem_line :: "parser_state \<Rightarrow> string \<Rightarrow> parser_state" where
  \<open>problem_line st line =
     (if currentSection st = Some problems_section \<and> startsWith line ''Problem:'' then
        (pushProblem st)
          \<lparr>currentProblem :=
             Some \<lparr>title = field_value line ''Problem:'', mentionedIn = None,
                   impact = None, evidence = None\<rparr>,
           currentEvidence := []\<rparr>
      else if currentSection st = Some problems_section \<and> startsWith line ''Mentioned in:'' then
        (case currentProblem st of
           None \<Rightarrow> st
         | Some p \<Rightarrow>
             st\<lparr>currentProblem :=
                  Some (p\<lparr>mentionedIn := Some (field_value line ''Mentioned in:'')\<rparr>)\<rparr>)
      else if currentSection st = Some problems_section \<and> startsWith line ''Impact:'' then
        (case currentProblem st of
           None \<Rightarrow> st
         | Some p \<Rightarrow>
             st\<lparr>currentProblem := Some (p\<lparr>impact := Some (field_value line ''Impact:'')\<rparr>)\<rparr>)
      else if currentSection st = Some problems_section \<and> startsWith line ''Evidence:'' then
        (let evidenceText = field_value line ''Evidence:''
         in if evidenceText \<noteq> []
            then st\<lparr>currentEvidence := currentEvidence st @ [evidenceText]\<rparr>
            else st)
      else if currentSection st = Some problems_section \<and> startsWith line ''-'' then
        st\<lparr>currentEvidence := currentEvidence st @ [replace_dash line]\<rparr>
      else if currentSection st = Some problems_section \<and> startsWith line [CHR 0x22] then
        st\<lparr>currentEvidence := currentEvidence st @ [line]\<rparr>
      else st)\<close>

text \<open>The second chain, on the lines of the features section.\<close>

definition feature_line :: "parser_state \<Rightarrow> string \<Rightarrow> parser_state" where
  "feature_line st line =
     (if currentSection st = Some features_section \<and> startsWith line ''Feature:'' then
        (pushFeature st)
          \<lparr>currentFeature :=
             Some \<lparr>feature = field_value line ''Feature:'', why = None, effort = None,
                   priority = None\<rparr>\<rparr>
      else if currentSection st = Some features_section \<and> startsWith line ''Why:'' then
        (case currentFeature st of
           None \<Rightarrow> st
         | Some f \<Rightarrow> st\<lparr>currentFeature := Some (f\<lparr>why := Some (field_value line ''Why:'')\<rparr>)\<rparr>)
      else if currentSection st = Some features_section \<and> startsWith line ''Effort:'' then
        (case currentFeature st of
           None \<Rightarrow> st
         | Some f \<Rightarrow>
             st\<lparr>currentFeature := Some (f\<lparr>effort := Some (field_value line ''Effort:'')\<rparr>)\<rparr>)
      else if currentSection st = Some features_section \<and> startsWith line ''Priority:'' then
        (case currentFeature st of
           None \<Rightarrow> st
         | Some f \<Rightarrow>
             st\<lparr>currentFeature := Some (f\<lparr>priority := Some (field_value line ''Priority:'')\<rparr>)\<rparr>)
      else st)"

text \<open>The third block, on the lines of the top-priority section.\<close>

definition topPriority_line :: "parser_state \<Rightarrow> string \<Rightarrow> parser_state" where
  "topPriority_line st line =
     (if currentSection st = Some topPriority_section then
        (if startsWith line ''What to build first:'' then
           st\<lparr>topPriority :=
                Some \<lparr>what = field_value line ''What to build first:'', tp_why = [],
                      tp_impact = [], tp_evidence = []\<rparr>\<rparr>
         else if topPriority st \<noteq> None \<and> startsWith line ''Why:'' then
           st\<lparr>topPriority :=
                map_option (\<lambda>t. t\<lparr>tp_why := field_value line ''Why:''\<rparr>) (topPriority st)\<rparr>
         else if topPriority st \<noteq> None \<and> startsWith line ''Expected impact:'' then
           st\<lparr>topPriority :=
                map_option (\<lambda>t. t\<lparr>tp_impact := field_value line ''Expected impact:''\<rparr>)
                  (topPriority st)\<rparr>
         else if topPriority st \<noteq> None \<and> startsWith line ''Customer evidence:'' then
           st\<lparr>topPriority :=
                map_option (\<lambda>t. t\<lparr>tp_evidence := field_value line ''Customer evidence:''\<rparr>)
                  (topPriority st)\<rparr>
         else st)
      else st)"

text \<open>One iteration of the loop, on the line \<open>lines[i]\<close>.\<close>

definition processLine :: "parser_state \<Rightarrow> string \<Rightarrow> parser_state" where
  "processLine st raw =
     (let line = trim raw in
      if includes_js line ''PROBLEMS IDENTIFIED'' then
        st\<lparr>currentSection := Some problems_section\<rparr>
      else if includes_js line ''RECOMMENDED FEATURES'' then
        (pushProblem st)
          \<lparr>currentProblem := None, currentEvidence := [],
           currentSection := Some features_section\<rparr>
      else if includes_js line ''TOP PRIORITY'' then
        (pushFeature st)\<lparr>currentFeature := None, currentSection := Some topPriority_section\<rparr>
      else topPriority_line (feature_line (problem_line st line) line) line)"

text \<open>The loop over the lines, and the two pushes after it.\<close>

definition scan :: "string \<Rightarrow> parser_state" where
  "scan text = foldl processLine initial_state (split_lines text)"

record parsed_results =
  res_problems :: "Problem list"
  res_features :: "Feature list"
  res_topPriority :: "TopPriority option"

text \<open>
  \<open>parseAnalysisResults\<close> hands its result to \<open>setParsedResults\<close>; the model returns it.
\<close>

definition parseAnalysisResults :: "string \<Rightarrow> parsed_results" where
  "parseAnalysisResults text =
     (let st = pushFeature (pushProblem (scan text))
      in \<lparr>res_problems = problems st, res_features = features st,
          res_topPriority = topPriority st\<rparr>)"


section \<open>What a response holds, in the words of the specification\<close>

text \<open>
  The lines of a response that are not section headers, trimmed, each with the section
  it lies in: the one whose header was the last before it, if any. A line is the header
  of the first of the three sections whose name it contains.
\<close>

fun sections :: "section_tag option \<Rightarrow> string list \<Rightarrow> (section_tag option \<times> string) list" where
  "sections sec [] = []"
| "sections sec (raw # rest) =
     (let line = trim raw in
      if includes_js line ''PROBLEMS IDENTIFIED'' then sections (Some problems_section) rest
      else if includes_js line ''RECOMMENDED FEATURES'' then sections (Some features_section) rest
      else if includes_js line ''TOP PRIORITY'' then sections (Some topPriority_section) rest
      else (sec, line) # sections sec rest)"

text \<open>
  The values of the lines of a section that start with a label, those that are not empty.
\<close>

definition labelled :: "section_tag \<Rightarrow> string \<Rightarrow> (section_tag option \<times> string) list \<Rightarrow> string list" where
  "labelled sec label ls =
     filter (\<lambda>v. v \<noteq> [])
       (map (\<lambda>(s, l). field_value l label)
          (filter (\<lambda>(s, l). s = Some sec \<and> startsWith l label) ls))"

text \<open>
  The problems and the features a response holds are the non-empty titles on the
  \<open>Problem:\<close> lines of its problems section and the non-empty names on the \<open>Feature:\<close> lines
  of its features section; its top priorities are the values on the
  \<open>What to build first:\<close> lines of its top-priority section.
\<close>

definition what_lines :: "(section_tag option \<times> string) list \<Rightarrow> string list" where
  "what_lines ls =
     map (\<lambda>(s, l). field_value l ''What to build first:'')
       (filter (\<lambda>(s, l). s = Some topPriority_section \<and> startsWith l ''What to build first:'') ls)"

definition found_problems :: "string \<Rightarrow> string list" where
  "found_problems text = labelled problems_section ''Problem:'' (sections None (split_lines text))"

definition found_features :: "string \<Rightarrow> string list" where
  "found_features text = labelled features_section ''Feature:'' (sections None (split_lines text))"

definition found_topPriority :: "string \<Rightarrow> string list" where
  "found_topPriority text =
     what_lines (sections None (split_lines text))"

text \<open>An emitted problem has a title and its evidence.\<close>

definition complete_problem :: "Problem \<Rightarrow> bool" where
  "complete_problem p = (title p \<noteq> [] \<and> evidence p \<noteq> None)"



section \<open>The request handler\<close>

text \<open>
  A parsed JSON value. An object is the list of its properties, each key once; a number
  is the value the parser made of it.
\<close>

datatype json =
  JNull | JBool bool | JNum real | JStr string | JArr "json list" | JObj "(string \<times> json) list"

text \<open>\<open>!!v\<close>\<close>

fun truthy :: "json \<Rightarrow> bool" where
  "truthy JNull = False"
| "truthy (JBool b) = b"
| "truthy (JNum x) = (x \<noteq> 0)"
| "truthy (JStr s) = (s \<noteq> [])"
| "truthy (JArr xs) = True"
| "truthy (JObj kvs) = True"

text \<open>\<open>Array.isArray(v)\<close>\<close>

fun isArray :: "json \<Rightarrow> bool" where
  "isArray (JArr xs) = True"
| "isArray v = False"

definition TypeError :: "string \<Rightarrow> js_error" where
  "TypeError msg = \<lparr>is_Error = True, status = None, error_type = None, message = Some msg\<rparr>"

text \<open>
  \<open>const { interviews } = body\<close>: a \<open>TypeError\<close> on \<open>null\<close>, the property of an object,
  \<open>undefined\<close> (\<open>None\<close>) on every other value.
\<close>

fun destructure_interviews :: "json \<Rightarrow> js_error + json option" where
  "destructure_interviews JNull =
     Inl (TypeError ''Cannot destructure property interviews of null'')"
| "destructure_interviews (JObj kvs) = Inr (map_of kvs ''interviews'')"
| "destructure_interviews v = Inr None"

text \<open>
  \<open>interviews.filter((i: string) => i && i.trim().length > 0)\<close>. The elements are what the
  request holds: a falsy one is dropped, a string is kept when its trimmed text is not
  empty, and any other one has no \<open>trim\<close> method, so the call throws.
\<close>

fun filterValid :: "json list \<Rightarrow> js_error + string list" where
  "filterValid [] = Inr []"
| "filterValid (i # rest) =
     (if \<not> truthy i then filterValid rest
      else (case i of
              JStr s \<Rightarrow>
                (case filterValid rest of
                   Inl e \<Rightarrow> Inl e
                 | Inr r \<Rightarrow> Inr (if length (trim s) > 0 then s # r else r))
            | _ \<Rightarrow> Inl (TypeError ''i.trim is not a function'')))"

text \<open>\<open>xs.join(sep)\<close>\<close>

fun join :: "string \<Rightarrow> string list \<Rightarrow> string" where
  "join sep [] = []"
| "join sep [x] = x"
| "join sep (x # y # r) = x @ sep @ join sep (y # r)"

text \<open>\<open>xs.map((text, index) => ...)\<close>, from the index \<open>index\<close> on.\<close>

fun map_index :: "(string \<Rightarrow> nat \<Rightarrow> string) \<Rightarrow> nat \<Rightarrow> string list \<Rightarrow> string list" where
  "map_index f index [] = []"
| "map_index f index (x # xs) = f x index # map_index f (index + 1) xs"

definition interviewsText :: "string list \<Rightarrow> string" where
  "interviewsText validInterviews =
     join ''\<newline>\<newline>''
       (map_index (\<lambda>text index. ''--- Interview '' @ decimal (index + 1) @ '' ---\<newline>'' @ text)
          0 validInterviews)"

text \<open>
  \<open>ANALYSIS_PROMPT\<close>, one line of the template literal on each line: the lines before the
  placeholder, the placeholder, and the rest of the template from the end of the
  placeholder's line on.
\<close>

definition template_head :: string where
  "template_head =
     ''You are an expert product researcher analyzing customer interviews.\<newline>'' @
     ''Analyze these customer interviews and identify clear patterns.\<newline>'' @
     ''\<newline>'' @
     ''INTERVIEWS:\<newline>''"

definition template_tail :: string where
  \<open>template_tail =
     ''\<newline>'' @
     ''\<newline>'' @
     ''IMPORTANT: You MUST provide analysis in the EXACT format below. Do not omit any sections.\<newline>'' @
     ''\<newline>'' @
     ''---\<newline>'' @
     ''\<newline>'' @
     ''PROBLEMS IDENTIFIED\<newline>'' @
     ''\<newline>'' @
     ''Problem: [Clear, concise statement of the problem]\<newline>'' @
     ''Mentioned in: [e.g., 2/3 interviews]\<newline>'' @
     ''Impact: High/Medium/Low\<newline>'' @
     ''Evidence:\<newline>'' @
     ''- "[Direct quote from interview]"\<newline>'' @
     ''- "[Another direct quote]"\<newline>'' @
     ''\<newline>'' @
     ''Problem: [Second problem if applicable]\<newline>'' @
     ''Mentioned in: [e.g., 1/3 interviews]\<newline>'' @
     ''Impact: High/Medium/Low\<newline>'' @
     ''Evidence:\<newline>'' @
     ''- "[Direct quote from interview]"\<newline>'' @
     ''\<newline>'' @
     ''RECOMMENDED FEATURES\<newline>'' @
     ''\<newline>'' @
     ''Feature: [What to build to solve this problem]\<newline>'' @
     ''Why: [How this feature solves the problem]\<newline>'' @
     ''Effort: Small/Medium/Large\<newline>'' @
     ''Priority: P0/P1/P2\<newline>'' @
     ''\<newline>'' @
     ''Feature: [Second feature]\<newline>'' @
     ''Why: [How this feature solves the problem]\<newline>'' @
     ''Effort: Small/Medium/Large\<newline>'' @
     ''Priority: P0/P1/P2\<newline>'' @
     ''\<newline>'' @
     ''TOP PRIORITY\<newline>'' @
     ''\<newline>'' @
     ''What to build first: [Single most important feature]\<newline>'' @
     ''Why: [Reasoning based on customer evidence]\<newline>'' @
     ''Expected impact: High/Medium/Low\<newline>'' @
     ''Customer evidence: "[Key quote supporting this decision]"\<newline>'' @
     ''\<newline>'' @
     ''---\<newline>'' @
     ''\<newline>'' @
     ''Remember: Include at least 2-3 problems and 2-3 recommended features. Use real quotes from the interviews as evidence.''\<close>

definition ANALYSIS_PROMPT :: string where
  "ANALYSIS_PROMPT = template_head @ ''{interviews}'' @ template_tail"

definition prompt :: "string list \<Rightarrow> string" where
  "prompt validInterviews = replace ANALYSIS_PROMPT ''{interviews}'' (interviewsText validInterviews)"

text \<open>The request of \<open>anthropic.messages.create\<close> and the part of its answer that is read.\<close>

record create_params =
  model :: string
  max_tokens :: nat
  messages :: "(string \<times> string) list"

record content_block =
  block_type :: string
  block_text :: string

record api_message =
  content :: "content_block list option"

text \<open>The answer of the handler: \<open>NextResponse.json(body, { status })\<close>.\<close>

datatype response_body =
  Error_body string
| Analysis_body (success: bool) (analysis: string) (interviewCount: nat)

record response =
  http_status :: nat
  body :: response_body

text \<open>The \<open>catch\<close> block of \<open>POST\<close>.\<close>

definition handle_error :: "js_error \<Rightarrow> response" where
  "handle_error error =
     (if is_Error error \<and> (case message error of None \<Rightarrow> False | Some m \<Rightarrow> includes_js m ''API key'')
      then \<lparr>http_status = 500,
            body = Error_body
              ''API key not configured. Please add ANTHROPIC_API_KEY to your environment variables.''\<rparr>
      else if status error = Some 529 \<or> error_type error = Some ''overloaded_error''
      then \<lparr>http_status = 503,
            body = Error_body
              ''The Anthropic API is currently overloaded. Please wait a moment and try again.''\<rparr>
      else \<lparr>http_status = 500,
            body = Error_body ''Failed to analyze interviews. Please try again.''\<rparr>)"

text \<open>The value a \<open>catch\<close> receives from \<open>retryWithBackoff\<close>.\<close>

fun caught :: "thrown \<Rightarrow> js_error" where
  "caught (Rethrown e) = e"
| "caught MaxRetriesExceeded =
     \<lparr>is_Error = True, status = None, error_type = None, message = Some ''Max retries exceeded''\<rparr>"

text \<open>The text of the first content block, when there is one and it is a text block.\<close>

definition analysis_of :: "api_message \<Rightarrow> string" where
  "analysis_of msg =
     (case content msg of
        None \<Rightarrow> []
      | Some [] \<Rightarrow> []
      | Some (b # bs) \<Rightarrow> if block_type b = ''text'' then block_text b else [])"

text \<open>
  \<open>POST\<close>. The request is what \<open>request.json()\<close> gives, a rejection or the parsed body; the
  remote service is the operation that \<open>messages.create\<close> is on the parameters it is
  called with. Writes to the console are left out.
\<close>

definition POST ::
  "js_error + json \<Rightarrow> (create_params \<Rightarrow> api_message operation) \<Rightarrow> world \<Rightarrow> response \<times> world" where
  "POST request remote w =
     (case request of
        Inl error \<Rightarrow> (handle_error error, w)
      | Inr parsed \<Rightarrow>
     (case destructure_interviews parsed of
        Inl error \<Rightarrow> (handle_error error, w)
      | Inr interviews \<Rightarrow>
     (case interviews of
        None \<Rightarrow>
          (\<lparr>http_status = 400,
            body = Error_body ''Please provide at least one interview transcript''\<rparr>, w)
      | Some v \<Rightarrow>
          if \<not> truthy v \<or> \<not> isArray v \<or> v = JArr [] then
            (\<lparr>http_status = 400,
              body = Error_body ''Please provide at least one interview transcript''\<rparr>, w)
          else
     (case filterValid (case v of JArr xs \<Rightarrow> xs | _ \<Rightarrow> []) of
        Inl error \<Rightarrow> (handle_error error, w)
      | Inr validInterviews \<Rightarrow>
          if length validInterviews = 0 then
            (\<lparr>http_status = 400,
              body = Error_body ''No valid interview transcripts provided''\<rparr>, w)
          else
     (case retryWithBackoff
             (remote \<lparr>model = ''claude-sonnet-4-20250514'', max_tokens = 4000,
                      messages = [(''user'', prompt validInterviews)]\<rparr>)
             3 1500 w of
        (Inl error, w') \<Rightarrow> (handle_error (caught error), w')
      | (Inr msg, w') \<Rightarrow>
          (\<lparr>http_status = 200,
            body = Analysis_body True (analysis_of msg) (length validInterviews)\<rparr>, w'))))))"

text \<open>An entry that is a transcript with more than white space in it.\<close>

definition has_content :: "json \<Rightarrow> bool" where
  "has_content x = (case x of JStr s \<Rightarrow> trim s \<noteq> [] | _ \<Rightarrow> False)"


section \<open>Invariants of the scan\<close>

text \<open>What holds of the scan as long as the header of a section has not been seen.\<close>

definition no_problems_yet :: "parser_state \<Rightarrow> bool" where
  "no_problems_yet st =
     (currentSection st \<noteq> Some problems_section \<and> currentProblem st = None \<and> problems st = [])"

definition no_features_yet :: "parser_state \<Rightarrow> bool" where
  "no_features_yet st =
     (currentSection st \<noteq> Some features_section \<and> currentFeature st = None \<and> features st = [])"

definition no_topPriority_yet :: "parser_state \<Rightarrow> bool" where
  "no_topPriority_yet st =
     (currentSection st \<noteq> Some topPriority_section \<and> topPriority st = None)"

text \<open>Two states of the scan with the same problems and features, collected and open.\<close>

definition same_records :: "parser_state \<Rightarrow> parser_state \<Rightarrow> bool" where
  "same_records st st' =
     (problems st' = problems st \<and> features st' = features st
      \<and> currentProblem st' = currentProblem st \<and> currentEvidence st' = currentEvidence st
      \<and> currentFeature st' = currentFeature st)"

text \<open>The title of the open problem and the name of the open feature, when not empty.\<close>

definition open_title :: "parser_state \<Rightarrow> string list" where
  "open_title st =
     (case currentProblem st of None \<Rightarrow> [] | Some p \<Rightarrow> if title p \<noteq> [] then [title p] else [])"

definition open_feature :: "parser_state \<Rightarrow> string list" where
  "open_feature st =
     (case currentFeature st of None \<Rightarrow> [] | Some f \<Rightarrow> if feature f \<noteq> [] then [feature f] else [])"


section \<open>Inputs for the concrete runs\<close>

definition overloaded_error :: js_error where
  "overloaded_error = \<lparr>is_Error = True, status = Some 529, error_type = Some ''overloaded_error'',
      message = Some ''Overloaded''\<rparr>"

definition rate_limit_error :: js_error where
  "rate_limit_error = \<lparr>is_Error = True, status = Some 429, error_type = Some ''rate_limit_error'',
      message = Some ''Too many requests''\<rparr>"

definition authentication_error :: js_error where
  "authentication_error = \<lparr>is_Error = True, status = Some 401,
      error_type = Some ''authentication_error'', message = Some ''invalid x-api-key''\<rparr>"

definition flaky :: "nat operation" where
  "flaky n = (if n = 0 then Inl overloaded_error else if n = 1 then Inl rate_limit_error else Inr 7)"

definition failing :: "nat operation" where
  "failing n = Inl authentication_error"

text \<open>An operation that is overloaded \<open>n\<close> times and then answers.\<close>

definition overloaded_for :: "nat \<Rightarrow> nat operation" where
  "overloaded_for n i = (if i < n then Inl overloaded_error else Inr 7)"

text \<open>The response of the example in the specification.\<close>

definition example_response :: string where
  \<open>example_response =
     ''PROBLEMS IDENTIFIED\<newline>'' @
     ''Problem: Slow onboarding\<newline>'' @
     ''Mentioned in: 2/3\<newline>'' @
     ''Impact: High\<newline>'' @
     ''Evidence:\<newline>'' @
     ''- "Users get lost"\<newline>'' @
     ''\<newline>'' @
     ''RECOMMENDED FEATURES\<newline>'' @
     ''Feature: Guided checklist\<newline>'' @
     ''Why: Reduces confusion\<newline>'' @
     ''Effort: Small\<newline>'' @
     ''Priority: P0\<newline>'' @
     ''\<newline>'' @
     ''TOP PRIORITY\<newline>'' @
     ''What to build first: Guided checklist\<newline>'' @
     ''Why: Biggest complaint\<newline>'' @
     ''Expected impact: High\<newline>'' @
     ''Customer evidence: "Users get lost"''\<close>

text \<open>Responses whose \<open>PROBLEMS IDENTIFIED\<close> line comes after a record was opened.\<close>

definition reopened_features :: string where
  "reopened_features = ''RECOMMENDED FEATURES\<newline>Feature: A\<newline>PROBLEMS IDENTIFIED''"

definition reopened_problems :: string where
  "reopened_problems =
     ''PROBLEMS IDENTIFIED\<newline>Problem: X\<newline>- old\<newline>PROBLEMS IDENTIFIED\<newline>- new''"

text \<open>A response without a top-priority section.\<close>

definition no_top_response :: string where
  "no_top_response =
     ''PROBLEMS IDENTIFIED\<newline>Problem: X\<newline>- e\<newline>RECOMMENDED FEATURES\<newline>Feature: A''"

text \<open>A response whose sections hold nothing the parser reads.\<close>

definition unparsable_response :: string where
  "unparsable_response =
     ''PROBLEMS IDENTIFIED\<newline>nothing to read here\<newline>RECOMMENDED FEATURES\<newline>TOP PRIORITY\<newline>Why: none''"

text \<open>A state of the scan with a feature open and evidence collected.\<close>

definition open_feature_state :: parser_state where
  "open_feature_state =
     \<lparr>problems = [], features = [], topPriority = None,
      currentSection = Some features_section, currentProblem = None,
      currentFeature = Some \<lparr>feature = ''A'', why = None, effort = None, priority = None\<rparr>,
      currentEvidence = [''old'']\<rparr>"

text \<open>Request bodies, transcripts and remote services.\<close>

definition syntax_error :: js_error where
  "syntax_error = \<lparr>is_Error = True, status = None, error_type = None,
      message = Some ''Unexpected end of JSON input''\<rparr>"

definition blank_request :: json where
  "blank_request = JObj [(''interviews'', JArr [JStr ''   '', JStr [], JNull])]"

definition mixed_request :: json where
  "mixed_request = JObj [(''interviews'', JArr [JStr ''We pay a lot'', JStr '' '', JNull])]"

definition dollar_transcripts :: "string list" where
  "dollar_transcripts = [''We pay $$$ for this'']"

definition empty_answer :: "create_params \<Rightarrow> api_message operation" where
  "empty_answer params n = Inr \<lparr>content = Some []\<rparr>"

definition tool_answer :: "create_params \<Rightarrow> api_message operation" where
  "tool_answer params n =
     (if n = 0 then Inl overloaded_error
      else Inr \<lparr>content = Some [\<lparr>block_type = ''tool_use'', block_text = []\<rparr>]\<rparr>)"


section \<open>Facts about the string primitives\<close>

lemma startsWith_prefix: "startsWith s p \<longleftrightarrow> prefix p s"
  by (induction s p rule: startsWith.induct) auto

lemma includes_sublist: "includes_js s p \<longleftrightarrow> sublist p s"
proof (induction s)
  case Nil
  then show ?case by auto
next
  case (Cons c cs)
  then show ?case by (auto simp: startsWith_prefix sublist_Cons_right)
qed


lemma trim_Nil [simp]: "trim [] = []"
  by (simp add: trim_def)

lemma trim_decomp: "\<exists>a b. s = a @ trim s @ b"
proof -
  let ?t = "dropWhile isWhiteSpace s"
  have "?t = rev (takeWhile isWhiteSpace (rev ?t) @ dropWhile isWhiteSpace (rev ?t))"
    by simp
  also have "\<dots> = rev (dropWhile isWhiteSpace (rev ?t)) @ rev (takeWhile isWhiteSpace (rev ?t))"
    by (simp only: rev_append)
  finally have "?t = trim s @ rev (takeWhile isWhiteSpace (rev ?t))"
    by (simp only: trim_def)
  moreover have "s = takeWhile isWhiteSpace s @ ?t" by simp
  ultimately have "s = takeWhile isWhiteSpace s @ trim s @ rev (takeWhile isWhiteSpace (rev ?t))"
    by simp
  then show ?thesis by blast
qed

lemma includes_trim_imp: "includes_js (trim s) p \<Longrightarrow> includes_js s p"
proof -
  assume "includes_js (trim s) p"
  then obtain u v where "trim s = u @ p @ v" by (auto simp: includes_sublist sublist_def)
  moreover obtain a b where "s = a @ trim s @ b" using trim_decomp by blast
  ultimately have "s = (a @ u) @ p @ (v @ b)" by simp
  then show ?thesis unfolding includes_sublist sublist_def by blast
qed

lemma trim_keeps_core:
  assumes "\<not> isWhiteSpace x" "\<not> isWhiteSpace y"
  shows "trim (a @ x # m @ y # b) =
           dropWhile isWhiteSpace a @ x # m @ y # rev (dropWhile isWhiteSpace (rev b))"
  using assms by (simp add: trim_def dropWhile_append3)

lemma trim_keeps_single:
  assumes "\<not> isWhiteSpace x"
  shows "trim (a @ x # b) = dropWhile isWhiteSpace a @ x # rev (dropWhile isWhiteSpace (rev b))"
  using assms by (simp add: trim_def dropWhile_append3)

lemma includes_trim_header:
  assumes "p \<noteq> []" "\<not> isWhiteSpace (hd p)" "\<not> isWhiteSpace (last p)" "includes_js s p"
  shows "includes_js (trim s) p"
proof -
  from assms(4) obtain a b where s: "s = a @ p @ b" by (auto simp: includes_sublist sublist_def)
  show ?thesis
  proof (cases "length p = 1")
    case True
    then obtain x where p: "p = [x]" by (cases p) auto
    with assms(2) s have "trim s = dropWhile isWhiteSpace a @ p @ rev (dropWhile isWhiteSpace (rev b))"
      by (simp add: trim_keeps_single)
    then show ?thesis unfolding includes_sublist sublist_def by blast
  next
    case False
    with assms(1) obtain x m y where p: "p = x # m @ [y]"
      by (cases p; cases "tl p" rule: rev_cases) auto
    with assms(2,3) have "\<not> isWhiteSpace x" "\<not> isWhiteSpace y" by auto
    then have "trim (a @ x # m @ y # b) =
           dropWhile isWhiteSpace a @ x # m @ y # rev (dropWhile isWhiteSpace (rev b))"
      by (rule trim_keeps_core)
    with s p have "trim s = dropWhile isWhiteSpace a @ p @ rev (dropWhile isWhiteSpace (rev b))"
      by simp
    then show ?thesis unfolding includes_sublist sublist_def by blast
  qed
qed

lemma includes_trim_PROBLEMS:
  "includes_js (trim s) ''PROBLEMS IDENTIFIED'' = includes_js s ''PROBLEMS IDENTIFIED''"
  by (rule iffI[OF includes_trim_imp includes_trim_header]) (simp_all add: isWhiteSpace_def)

lemma split_lines_nonempty: "split_lines s \<noteq> []"
  by (induction s) (auto split: list.splits)

lemma split_lines_append:
  "split_lines (a @ CHR 0x0A # b) = split_lines a @ split_lines b"
proof (induction a)
  case Nil
  show ?case by simp
next
  case (Cons c a)
  then show ?case using split_lines_nonempty [of a]
    by (auto split: list.splits)
qed

lemma split_lines_single: "CHR 0x0A \<notin> set s \<Longrightarrow> split_lines s = [s]"
  by (induction s) auto

lemma startsWith_needs_first: "x \<notin> set s \<Longrightarrow> \<not> startsWith s (x # p)"
  by (cases s) auto

lemma includes_needs_first: "x \<notin> set s \<Longrightarrow> \<not> includes_js s (x # p)"
  by (induction s) auto

lemma firstMatch_first:
  "x \<notin> set a \<Longrightarrow> firstMatch (x # p) (a @ (x # p) @ b) = Some (a, b)"
proof (induction a)
  case Nil
  have "startsWith ((x # p) @ b) (x # p)" by (simp add: startsWith_prefix)
  then show ?case by simp
next
  case (Cons c a)
  then have "\<not> startsWith ((c # a) @ (x # p) @ b) (x # p)" by auto
  with Cons show ?case by simp
qed

lemma getSubstitution_plain:
  "CHR ''$'' \<notin> set r \<Longrightarrow> getSubstitution m pre fol r = r"
  by (induction m pre fol r rule: getSubstitution.induct) auto


section \<open>The attempt loop, case by case\<close>

lemma retry_loop_success:
  "int a < m \<Longrightarrow> fn (calls w) = Inr v \<Longrightarrow>
   retry_loop fn m b a w = (Inr v, w\<lparr>calls := calls w + 1, trace := trace w @ [Invoke]\<rparr>)"
  by (subst retry_loop.simps) (simp add: invoke_def)

lemma retry_loop_retry:
  "int a < m - 1 \<Longrightarrow> fn (calls w) = Inl e \<Longrightarrow> isOverloaded e \<or> isRateLimit e \<Longrightarrow>
   retry_loop fn m b a w =
     retry_loop fn m b (a + 1)
       (w\<lparr>calls := calls w + 1, trace := trace w @ [Invoke, Sleep (delay b a)]\<rparr>)"
  by (subst retry_loop.simps) (simp add: invoke_def sleep_def)

lemma retry_loop_rethrow:
  "int a < m \<Longrightarrow> fn (calls w) = Inl e \<Longrightarrow>
   \<not> (isOverloaded e \<or> isRateLimit e) \<or> \<not> int a < m - 1 \<Longrightarrow>
   retry_loop fn m b a w =
     (Inl (Rethrown e), w\<lparr>calls := calls w + 1, trace := trace w @ [Invoke]\<rparr>)"
  by (subst retry_loop.simps) (auto simp add: invoke_def)

lemma retry_loop_exhausted:
  "\<not> int a < m \<Longrightarrow> retry_loop fn m b a w = (Inl MaxRetriesExceeded, w)"
  by (subst retry_loop.simps) simp

lemma retry_loop_schedule:
  "int (a + k) < m \<Longrightarrow>
   \<forall>j<k. \<exists>e. fn (calls w + j) = Inl e \<and> (isOverloaded e \<or> isRateLimit e) \<Longrightarrow>
   fn (calls w + k) = Inr v \<Longrightarrow>
   retry_loop fn m b a w =
     (Inr v, \<lparr>calls = calls w + k + 1,
              trace = trace w @ concat (map (\<lambda>j. [Invoke, Sleep (delay b j)]) [a ..< a + k])
                      @ [Invoke]\<rparr>)"
proof (induction k arbitrary: a w)
  case 0
  then show ?case by (simp add: retry_loop_success)
next
  case (Suc k)
  from Suc.prems(2) obtain e where e: "fn (calls w) = Inl e" "isOverloaded e \<or> isRateLimit e"
    by force
  let ?w = "w\<lparr>calls := calls w + 1, trace := trace w @ [Invoke, Sleep (delay b a)]\<rparr>"
  have step: "retry_loop fn m b a w = retry_loop fn m b (a + 1) ?w"
    using Suc.prems(1) e by (intro retry_loop_retry) auto
  have later: "\<forall>j<k. \<exists>e. fn (calls ?w + j) = Inl e \<and> (isOverloaded e \<or> isRateLimit e)"
  proof (intro allI impI)
    fix j assume "j < k"
    then have "Suc j < Suc k" by simp
    with Suc.prems(2) have "\<exists>e. fn (calls w + Suc j) = Inl e \<and> (isOverloaded e \<or> isRateLimit e)"
      by blast
    then show "\<exists>e. fn (calls ?w + j) = Inl e \<and> (isOverloaded e \<or> isRateLimit e)" by simp
  qed
  have "retry_loop fn m b (a + 1) ?w =
     (Inr v, \<lparr>calls = calls ?w + k + 1,
              trace = trace ?w @ concat (map (\<lambda>j. [Invoke, Sleep (delay b j)]) [a + 1 ..< a + 1 + k])
                      @ [Invoke]\<rparr>)"
    using Suc.prems(1,3) later by (intro Suc.IH) auto
  moreover have "[a ..< a + Suc k] = a # [a + 1 ..< a + 1 + k]"
    by (simp add: upt_conv_Cons)
  ultimately show ?case
    by (simp only: step) simp
qed

lemma retry_loop_outcome:
  "int a < m \<Longrightarrow>
   (\<exists>n v. fn n = Inr v \<and> fst (retry_loop fn m b a w) = Inr v) \<or>
   (\<exists>n e. fn n = Inl e \<and> fst (retry_loop fn m b a w) = Inl (Rethrown e))"
proof (induction fn m b a w rule: retry_loop.induct)
  case (1 fn m b a w)
  show ?case
  proof (cases "fn (calls w)")
    case (Inr v)
    with "1.prems" show ?thesis by (auto simp: retry_loop_success)
  next
    case (Inl e)
    show ?thesis
    proof (cases "(isOverloaded e \<or> isRateLimit e) \<and> int a < m - 1")
      case True
      have "retry_loop fn m b a w = retry_loop fn m b (a + 1) (sleep (delay b a) (snd (invoke fn w)))"
        using True Inl by (simp add: retry_loop_retry invoke_def sleep_def)
      moreover have "int (a + 1) < m" using True by simp
      moreover
      have "(\<exists>n v. fn n = Inr v \<and> fst (retry_loop fn m b (a + 1) (sleep (delay b a) (snd (invoke fn w)))) = Inr v) \<or>
   (\<exists>n e. fn n = Inl e \<and> fst (retry_loop fn m b (a + 1) (sleep (delay b a) (snd (invoke fn w)))) = Inl (Rethrown e))"
        using True Inl "1.prems" by (intro "1.IH"[where x = "fst (invoke fn w)" and a = e]) (auto simp: invoke_def)
      ultimately show ?thesis by simp
    next
      case False
      with "1.prems" Inl show ?thesis by (auto simp: retry_loop_rethrow)
    qed
  qed
qed


section \<open>Properties of retryWithBackoff\<close>

lemma delay_in_range:
  "attempt < 1024 \<Longrightarrow> \<bar>baseDelay * 2 ^ attempt\<bar> < 2 ^ 1024 \<Longrightarrow>
   delay baseDelay attempt = Finite (baseDelay * 2 ^ attempt)"
  by (simp add: delay_def)

lemma delay_Finite_bound: "delay baseDelay attempt = Finite x \<Longrightarrow> \<bar>x\<bar> < 2 ^ 1024"
  by (auto simp: delay_def split: if_splits)

lemma schedule_events:
  "set (concat (map (\<lambda>j. [Invoke, Sleep (delay b j)]) [0 ..< k]) @ [Invoke]) =
     insert Invoke ((\<lambda>j. Sleep (delay b j)) ` {..<k})"
  by auto

lemma overloaded_for_run:
  "retryWithBackoff (overloaded_for n) (int n + 1) b world0 =
     (Inr 7, \<lparr>calls = n + 1,
              trace = concat (map (\<lambda>j. [Invoke, Sleep (delay b j)]) [0 ..< n]) @ [Invoke]\<rparr>)"
  using retry_loop_schedule [of 0 n "int n + 1" "overloaded_for n" world0 7 b]
  by (simp add: retryWithBackoff_def world0_def overloaded_for_def isOverloaded_def
      overloaded_error_def)

lemma overloaded_for_sleeps:
  assumes "j < n"
  shows "fst (retryWithBackoff (overloaded_for n) (int n + 1) b world0) = Inr 7
     \<and> Sleep (delay b j) \<in> set (trace (snd (retryWithBackoff (overloaded_for n) (int n + 1) b world0)))
     \<and> (\<not> \<bar>x\<bar> < 2 ^ 1024 \<longrightarrow>
          Sleep (Finite x) \<notin> set (trace (snd (retryWithBackoff (overloaded_for n) (int n + 1) b world0))))"
proof -
  have "Sleep (Finite x) \<in> (\<lambda>j. Sleep (delay b j)) ` {..<n} \<Longrightarrow> \<bar>x\<bar> < 2 ^ 1024"
    using delay_Finite_bound [of b _ x] by auto
  with assms show ?thesis
    unfolding overloaded_for_run by (auto simp only: fst_conv snd_conv world.simps schedule_events)
qed

text \<open>
  C1, as stated, fails. The delay is a double: when an operation is overloaded 1025 times
  and then answers, with \<open>maxRetries = 1026\<close> and \<open>baseDelay = 1\<close>, the sleep after failure
  1024 is asked for \<open>Infinity\<close> milliseconds, and no sleep is asked for \<open>2 ^ 1024\<close>.
\<close>

theorem retryWithBackoff_sleeps_Infinity:
  "fst (retryWithBackoff (overloaded_for 1025) 1026 1 world0) = Inr 7
   \<and> Sleep Infinity \<in> set (trace (snd (retryWithBackoff (overloaded_for 1025) 1026 1 world0)))
   \<and> Sleep (Finite (1 * 2 ^ 1024))
       \<notin> set (trace (snd (retryWithBackoff (overloaded_for 1025) 1026 1 world0)))"
  using overloaded_for_sleeps [of 1024 1025 1 "2 ^ 1024"]
  by (simp add: delay_def)

text \<open>
  C1, amended. When the first \<open>k\<close> invocations fail with retryable errors, \<open>k\<close> is below
  \<open>maxRetries\<close> and invocation \<open>k + 1\<close> succeeds, \<open>retryWithBackoff\<close> returns that value
  after exactly \<open>k + 1\<close> invocations, and between failure \<open>j\<close> (counted from 0) and the next
  invocation it calls \<open>sleep\<close> once, with the double \<open>baseDelay * Math.pow(2, j)\<close>, for each
  \<open>j < k\<close>. That double is \<open>baseDelay * 2 ^ j\<close> milliseconds exactly when \<open>j\<close> is below 1024
  and the product is below \<open>2 ^ 1024\<close> in absolute value.
\<close>

theorem retryWithBackoff_succeeds_after_retries:
  assumes "int k < maxRetries"
    and "\<forall>j<k. \<exists>e. fn j = Inl e \<and> (isOverloaded e \<or> isRateLimit e)"
    and "fn k = Inr v"
  shows "retryWithBackoff fn maxRetries baseDelay world0 =
           (Inr v, \<lparr>calls = k + 1,
                    trace = concat (map (\<lambda>j. [Invoke, Sleep (delay baseDelay j)]) [0 ..< k])
                            @ [Invoke]\<rparr>)
         \<and> (\<forall>j<k. j < 1024 \<and> \<bar>baseDelay * 2 ^ j\<bar> < 2 ^ 1024 \<longrightarrow>
               delay baseDelay j = Finite (baseDelay * 2 ^ j))"
  using retry_loop_schedule [of 0 k maxRetries fn world0 v baseDelay] assms
  by (simp add: retryWithBackoff_def world0_def delay_in_range)

theorem retryWithBackoff_succeeds_after_retries_witness:
  "int 2 < 3 \<and> flaky 0 = Inl overloaded_error \<and> isOverloaded overloaded_error
   \<and> flaky 1 = Inl rate_limit_error \<and> isRateLimit rate_limit_error \<and> flaky 2 = Inr 7
   \<and> retryWithBackoff flaky 3 1500 world0 =
       (Inr 7, \<lparr>calls = 3,
                trace = [Invoke, Sleep (Finite 1500), Invoke, Sleep (Finite 3000), Invoke]\<rparr>)
   \<and> delay 1500 0 = Finite (1500 * 2 ^ 0) \<and> delay 1500 1 = Finite (1500 * 2 ^ 1)"
proof -
  have h1: "int 2 < 3" by simp
  have f0: "flaky 0 = Inl overloaded_error" and f1: "flaky 1 = Inl rate_limit_error"
    by (simp_all add: flaky_def)
  have r0: "isOverloaded overloaded_error"
    by (simp add: isOverloaded_def overloaded_error_def)
  have r1: "isRateLimit rate_limit_error"
    by (simp add: isRateLimit_def rate_limit_error_def)
  have h2: "\<forall>j<2. \<exists>e. flaky j = Inl e \<and> (isOverloaded e \<or> isRateLimit e)"
    using f0 f1 r0 r1 by (auto simp: less_Suc_eq numeral_2_eq_2)
  have h3: "flaky 2 = Inr 7" by (simp add: flaky_def)
  have u: "[0 ..< (2::nat)] = [0, 1]" by (simp add: upt_rec)
  have d: "delay 1500 0 = Finite 1500" "delay 1500 1 = Finite 3000"
    by (simp_all add: delay_def)
  from retryWithBackoff_succeeds_after_retries [OF h1 h2 h3, of 1500] u d h1 f0 f1 r0 r1 h3
  show ?thesis by simp
qed

text \<open>
  C3. When the first attempt fails with an error that is neither overloaded nor rate
  limited, \<open>retryWithBackoff\<close> throws that very error after this one invocation: no sleep
  and no further invocation is added to the trace.
\<close>

theorem retryWithBackoff_non_retryable_immediate:
  assumes "1 \<le> maxRetries"
    and "fn (calls w) = Inl e"
    and "\<not> isOverloaded e" and "\<not> isRateLimit e"
  shows "retryWithBackoff fn maxRetries baseDelay w =
           (Inl (Rethrown e), w\<lparr>calls := calls w + 1, trace := trace w @ [Invoke]\<rparr>)"
  using assms by (simp add: retryWithBackoff_def retry_loop_rethrow)

theorem retryWithBackoff_non_retryable_immediate_witness:
  "(1::int) \<le> 3 \<and> failing (calls world0) = Inl authentication_error
   \<and> \<not> isOverloaded authentication_error \<and> \<not> isRateLimit authentication_error
   \<and> retryWithBackoff failing 3 1500 world0 =
       (Inl (Rethrown authentication_error), \<lparr>calls = 1, trace = [Invoke]\<rparr>)"
proof -
  have h1: "(1::int) \<le> 3" by simp
  have h2: "failing (calls world0) = Inl authentication_error" by (simp add: failing_def)
  have h3: "\<not> isOverloaded authentication_error"
    by (simp add: authentication_error_def isOverloaded_def)
  have h4: "\<not> isRateLimit authentication_error"
    by (simp add: authentication_error_def isRateLimit_def)
  from retryWithBackoff_non_retryable_immediate
         [where maxRetries = 3 and fn = failing and w = world0 and e = authentication_error
            and baseDelay = 1500] h1 h2 h3 h4
  show ?thesis by (simp add: world0_def)
qed

lemma isOverloaded_spec: "isOverloaded e \<longleftrightarrow> spec_overloaded e"
  by (auto simp: isOverloaded_def spec_overloaded_def includes_sublist split: option.splits)

lemma isRateLimit_spec: "isRateLimit e \<longleftrightarrow> spec_rate_limited e"
  by (simp add: isRateLimit_def spec_rate_limited_def)

text \<open>
  C5. The two tests of the source are the classification of the specification, and the
  loop retries after a failure exactly when the error is retryable in that sense and an
  attempt remains; any other error is thrown again at once, with no sleep.
\<close>

theorem retry_classification:
  "(isOverloaded e \<longleftrightarrow> spec_overloaded e) \<and> (isRateLimit e \<longleftrightarrow> spec_rate_limited e) \<and>
   (int attempt < maxRetries \<and> fn (calls w) = Inl e \<longrightarrow>
      retry_loop fn maxRetries baseDelay attempt w =
        (if spec_retryable e \<and> int attempt < maxRetries - 1
         then retry_loop fn maxRetries baseDelay (attempt + 1)
                (w\<lparr>calls := calls w + 1,
                   trace := trace w @ [Invoke, Sleep (delay baseDelay attempt)]\<rparr>)
         else (Inl (Rethrown e), w\<lparr>calls := calls w + 1, trace := trace w @ [Invoke]\<rparr>)))"
proof (intro conjI impI)
  show "isOverloaded e \<longleftrightarrow> spec_overloaded e" by (rule isOverloaded_spec)
  show "isRateLimit e \<longleftrightarrow> spec_rate_limited e" by (rule isRateLimit_spec)
next
  assume a: "int attempt < maxRetries \<and> fn (calls w) = Inl e"
  have r: "spec_retryable e \<longleftrightarrow> isOverloaded e \<or> isRateLimit e"
    by (simp add: spec_retryable_def isOverloaded_spec isRateLimit_spec)
  show "retry_loop fn maxRetries baseDelay attempt w =
        (if spec_retryable e \<and> int attempt < maxRetries - 1
         then retry_loop fn maxRetries baseDelay (attempt + 1)
                (w\<lparr>calls := calls w + 1,
                   trace := trace w @ [Invoke, Sleep (delay baseDelay attempt)]\<rparr>)
         else (Inl (Rethrown e), w\<lparr>calls := calls w + 1, trace := trace w @ [Invoke]\<rparr>))"
  proof (cases "spec_retryable e \<and> int attempt < maxRetries - 1")
    case True
    with a r show ?thesis by (simp add: retry_loop_retry)
  next
    case False
    with a r show ?thesis by (auto simp: retry_loop_rethrow)
  qed
qed

theorem retry_classification_witness:
  "int 0 < 3 \<and> flaky (calls world0) = Inl overloaded_error \<and> spec_retryable overloaded_error
   \<and> retry_loop flaky 3 1500 0 world0 =
       retry_loop flaky 3 1500 1 \<lparr>calls = 1, trace = [Invoke, Sleep (Finite 1500)]\<rparr>
   \<and> failing (calls world0) = Inl authentication_error \<and> \<not> spec_retryable authentication_error
   \<and> retry_loop failing 3 1500 0 world0 =
       (Inl (Rethrown authentication_error), \<lparr>calls = 1, trace = [Invoke]\<rparr>)"
proof -
  have f: "flaky (calls world0) = Inl overloaded_error" by (simp add: flaky_def world0_def)
  have g: "failing (calls world0) = Inl authentication_error" by (simp add: failing_def)
  have rf: "spec_retryable overloaded_error"
    by (simp add: spec_retryable_def spec_overloaded_def overloaded_error_def)
  have rg: "\<not> spec_retryable authentication_error"
    by (simp add: spec_retryable_def spec_overloaded_def spec_rate_limited_def
        authentication_error_def includes_sublist [symmetric])
  from retry_classification [of overloaded_error 0 3 flaky world0 1500]
    retry_classification [of authentication_error 0 3 failing world0 1500] f g rf rg
  show ?thesis by (simp add: world0_def delay_def)
qed

text \<open>
  C9. With \<open>maxRetries\<close> at least 1 the loop ends by returning a value of the operation or
  by throwing an error of the operation, never by falling through; below 1 no attempt is
  made and the function throws the \<open>Max retries exceeded\<close> error. In no case is there a
  result that is neither a returned value nor a thrown error.
\<close>

theorem retryWithBackoff_never_falls_through:
  "(1 \<le> maxRetries \<longrightarrow>
      (\<exists>n v. fn n = Inr v \<and> fst (retryWithBackoff fn maxRetries baseDelay w) = Inr v) \<or>
      (\<exists>n e. fn n = Inl e \<and> fst (retryWithBackoff fn maxRetries baseDelay w) = Inl (Rethrown e)))
   \<and> (maxRetries < 1 \<longrightarrow>
      retryWithBackoff fn maxRetries baseDelay w = (Inl MaxRetriesExceeded, w))"
  using retry_loop_outcome [of 0 maxRetries fn baseDelay w]
  by (auto simp: retryWithBackoff_def retry_loop_exhausted)

theorem retryWithBackoff_never_falls_through_witness:
  "(1::int) \<le> 3 \<and> fst (retryWithBackoff failing 3 1500 world0) \<noteq> Inl MaxRetriesExceeded
   \<and> (0::int) < 1 \<and> retryWithBackoff failing 0 1500 world0 = (Inl MaxRetriesExceeded, world0)"
  using retryWithBackoff_never_falls_through [of 3 failing 1500 world0]
    retryWithBackoff_never_falls_through [of 0 failing 1500 world0]
  by auto


section \<open>Properties of the parser\<close>

lemma pushProblem_other [simp]:
  "features (pushProblem st) = features st"
  "topPriority (pushProblem st) = topPriority st"
  "currentSection (pushProblem st) = currentSection st"
  "currentFeature (pushProblem st) = currentFeature st"
  "currentEvidence (pushProblem st) = currentEvidence st"
  by (simp_all add: pushProblem_def Let_def split: option.splits)

lemma pushFeature_other [simp]:
  "problems (pushFeature st) = problems st"
  "topPriority (pushFeature st) = topPriority st"
  "currentSection (pushFeature st) = currentSection st"
  "currentProblem (pushFeature st) = currentProblem st"
  "currentFeature (pushFeature st) = currentFeature st"
  "currentEvidence (pushFeature st) = currentEvidence st"
  by (simp_all add: pushFeature_def split: option.splits)

lemma pushProblem_None [simp]: "currentProblem st = None \<Longrightarrow> pushProblem st = st"
  by (simp add: pushProblem_def)

lemma pushFeature_None [simp]: "currentFeature st = None \<Longrightarrow> pushFeature st = st"
  by (simp add: pushFeature_def)

lemma problem_line_other [simp]:
  "features (problem_line st l) = features st"
  "topPriority (problem_line st l) = topPriority st"
  "currentSection (problem_line st l) = currentSection st"
  "currentFeature (problem_line st l) = currentFeature st"
  by (simp_all add: problem_line_def Let_def split: option.splits)

lemma problem_line_idle [simp]:
  "currentSection st \<noteq> Some problems_section \<Longrightarrow> problem_line st l = st"
  by (simp add: problem_line_def)

lemma feature_line_other [simp]:
  "problems (feature_line st l) = problems st"
  "topPriority (feature_line st l) = topPriority st"
  "currentSection (feature_line st l) = currentSection st"
  "currentProblem (feature_line st l) = currentProblem st"
  "currentEvidence (feature_line st l) = currentEvidence st"
  by (simp_all add: feature_line_def split: option.splits)

lemma feature_line_idle [simp]:
  "currentSection st \<noteq> Some features_section \<Longrightarrow> feature_line st l = st"
  by (simp add: feature_line_def)

lemma topPriority_line_other [simp]:
  "problems (topPriority_line st l) = problems st"
  "features (topPriority_line st l) = features st"
  "currentSection (topPriority_line st l) = currentSection st"
  "currentProblem (topPriority_line st l) = currentProblem st"
  "currentFeature (topPriority_line st l) = currentFeature st"
  "currentEvidence (topPriority_line st l) = currentEvidence st"
  by (simp_all add: topPriority_line_def)

lemma topPriority_line_idle [simp]:
  "currentSection st \<noteq> Some topPriority_section \<Longrightarrow> topPriority_line st l = st"
  by (simp add: topPriority_line_def)

lemma processLine_no_problems:
  assumes "\<not> includes_js raw ''PROBLEMS IDENTIFIED''" "no_problems_yet st"
  shows "no_problems_yet (processLine st raw)"
proof -
  from assms(1) have "\<not> includes_js (trim raw) ''PROBLEMS IDENTIFIED''"
    using includes_trim_imp by blast
  with assms(2) show ?thesis
    by (simp add: processLine_def no_problems_yet_def Let_def)
qed

lemma processLine_no_features:
  assumes "\<not> includes_js raw ''RECOMMENDED FEATURES''" "no_features_yet st"
  shows "no_features_yet (processLine st raw)"
proof -
  from assms(1) have "\<not> includes_js (trim raw) ''RECOMMENDED FEATURES''"
    using includes_trim_imp by blast
  with assms(2) show ?thesis
    by (simp add: processLine_def no_features_yet_def Let_def)
qed

lemma processLine_no_topPriority:
  assumes "\<not> includes_js raw ''TOP PRIORITY''" "no_topPriority_yet st"
  shows "no_topPriority_yet (processLine st raw)"
proof -
  from assms(1) have "\<not> includes_js (trim raw) ''TOP PRIORITY''"
    using includes_trim_imp by blast
  with assms(2) show ?thesis
    by (simp add: processLine_def no_topPriority_yet_def Let_def)
qed

lemma foldl_invariant:
  assumes "\<And>st l. l \<in> set ls \<Longrightarrow> I st \<Longrightarrow> I (processLine st l)" "I st"
  shows "I (foldl processLine st ls)"
  using assms by (induction ls arbitrary: st) auto

lemma scan_no_problems:
  assumes "\<forall>l\<in>set (split_lines text). \<not> includes_js l ''PROBLEMS IDENTIFIED''"
  shows "no_problems_yet (scan text)"
proof -
  have "no_problems_yet initial_state"
    by (simp add: no_problems_yet_def initial_state_def)
  moreover have "\<And>st l. l \<in> set (split_lines text) \<Longrightarrow> no_problems_yet st \<Longrightarrow> no_problems_yet (processLine st l)"
    using assms processLine_no_problems by blast
  ultimately show ?thesis
    unfolding scan_def by (rule foldl_invariant [where I = no_problems_yet, rotated])
qed

lemma scan_no_features:
  assumes "\<forall>l\<in>set (split_lines text). \<not> includes_js l ''RECOMMENDED FEATURES''"
  shows "no_features_yet (scan text)"
proof -
  have "no_features_yet initial_state"
    by (simp add: no_features_yet_def initial_state_def)
  moreover have "\<And>st l. l \<in> set (split_lines text) \<Longrightarrow> no_features_yet st \<Longrightarrow> no_features_yet (processLine st l)"
    using assms processLine_no_features by blast
  ultimately show ?thesis
    unfolding scan_def by (rule foldl_invariant [where I = no_features_yet, rotated])
qed

lemma scan_no_topPriority:
  assumes "\<forall>l\<in>set (split_lines text). \<not> includes_js l ''TOP PRIORITY''"
  shows "no_topPriority_yet (scan text)"
proof -
  have "no_topPriority_yet initial_state"
    by (simp add: no_topPriority_yet_def initial_state_def)
  moreover have "\<And>st l. l \<in> set (split_lines text) \<Longrightarrow> no_topPriority_yet st \<Longrightarrow> no_topPriority_yet (processLine st l)"
    using assms processLine_no_topPriority by blast
  ultimately show ?thesis
    unfolding scan_def by (rule foldl_invariant [where I = no_topPriority_yet, rotated])
qed

lemma processLine_in_topPriority:
  assumes "\<not> includes_js raw ''PROBLEMS IDENTIFIED''" "\<not> includes_js raw ''RECOMMENDED FEATURES''"
    and "currentSection st = Some topPriority_section" "currentFeature st = None"
  shows "currentSection (processLine st raw) = Some topPriority_section
         \<and> same_records st (processLine st raw)"
proof -
  from assms(1,2) have "\<not> includes_js (trim raw) ''PROBLEMS IDENTIFIED''"
    "\<not> includes_js (trim raw) ''RECOMMENDED FEATURES''"
    using includes_trim_imp by blast+
  with assms(3,4) show ?thesis
    by (simp add: processLine_def same_records_def Let_def)
qed

lemma foldl_in_topPriority:
  assumes "\<forall>l\<in>set ls. \<not> includes_js l ''PROBLEMS IDENTIFIED'' \<and> \<not> includes_js l ''RECOMMENDED FEATURES''"
    and "currentSection st = Some topPriority_section" "currentFeature st = None"
  shows "currentSection (foldl processLine st ls) = Some topPriority_section
         \<and> same_records st (foldl processLine st ls)"
  using assms
proof (induction ls arbitrary: st)
  case Nil
  then show ?case by (simp add: same_records_def)
next
  case (Cons l ls)
  from Cons.prems have step: "currentSection (processLine st l) = Some topPriority_section"
    "same_records st (processLine st l)"
    using processLine_in_topPriority [of l st] by auto
  then have "currentFeature (processLine st l) = None"
    using Cons.prems(3) by (simp add: same_records_def)
  with Cons.IH [of "processLine st l"] Cons.prems(1) step
  show ?case by (simp add: same_records_def)
qed

lemma processLine_TOP_PRIORITY:
  "processLine st ''TOP PRIORITY'' =
     (pushFeature st)\<lparr>currentFeature := None, currentSection := Some topPriority_section\<rparr>"
  by (simp add: processLine_def trim_def isWhiteSpace_def)

lemma scan_cut_topPriority:
  assumes "\<forall>l\<in>set (split_lines rest). \<not> includes_js l ''PROBLEMS IDENTIFIED'' \<and> \<not> includes_js l ''RECOMMENDED FEATURES''"
  shows "same_records ((pushFeature (scan text))\<lparr>currentFeature := None\<rparr>)
           (scan (text @ ''\<newline>TOP PRIORITY\<newline>'' @ rest))"
proof -
  let ?st = "(pushFeature (scan text))\<lparr>currentFeature := None, currentSection := Some topPriority_section\<rparr>"
  have "split_lines (text @ ''\<newline>TOP PRIORITY\<newline>'' @ rest) =
          split_lines text @ [''TOP PRIORITY''] @ split_lines rest"
    using split_lines_append [of "text" "''TOP PRIORITY'' @ CHR 0x0A # rest"]
      split_lines_append [of "''TOP PRIORITY''" rest]
    by (simp add: split_lines_single)
  then have "scan (text @ ''\<newline>TOP PRIORITY\<newline>'' @ rest) = foldl processLine ?st (split_lines rest)"
    by (simp add: scan_def processLine_TOP_PRIORITY)
  moreover have "same_records ?st (foldl processLine ?st (split_lines rest))"
    using foldl_in_topPriority [of "split_lines rest" ?st] assms by simp
  ultimately show ?thesis by (simp add: same_records_def)
qed

text \<open>
  C2. The example response of the specification parses to one problem, titled
  \<open>Slow onboarding\<close>, whose evidence is the one string \<open>"Users get lost"\<close> with its quotes,
  one feature \<open>Guided checklist\<close> of priority \<open>P0\<close>, and a top priority whose \<open>what\<close> is
  \<open>Guided checklist\<close>. The theorem gives the whole result.
\<close>

theorem parse_example:
  \<open>parseAnalysisResults example_response =
     \<lparr>res_problems =
        [\<lparr>title = ''Slow onboarding'', mentionedIn = Some ''2/3'', impact = Some ''High'',
          evidence = Some [''"Users get lost"'']\<rparr>],
      res_features =
        [\<lparr>feature = ''Guided checklist'', why = Some ''Reduces confusion'',
          effort = Some ''Small'', priority = Some ''P0''\<rparr>],
      res_topPriority =
        Some \<lparr>what = ''Guided checklist'', tp_why = ''Biggest complaint'', tp_impact = ''High'',
              tp_evidence = ''"Users get lost"''\<rparr>\<rparr>\<close>
  by code_simp

text \<open>
  C6, as stated, fails. The line \<open>PROBLEMS IDENTIFIED\<close> discards no record: a feature opened
  before it is emitted at the end of the input, and evidence collected before it is
  attached to the problem together with the evidence that follows it.
\<close>

theorem problems_header_keeps_open_records:
  "res_features (parseAnalysisResults reopened_features) =
     [\<lparr>feature = ''A'', why = None, effort = None, priority = None\<rparr>]
   \<and> res_problems (parseAnalysisResults reopened_problems) =
     [\<lparr>title = ''X'', mentionedIn = None, impact = None, evidence = Some [''old'', ''new'']\<rparr>]"
  by code_simp

text \<open>
  C6, amended. A line containing \<open>PROBLEMS IDENTIFIED\<close> enters the problems section and
  changes nothing else: the open problem, the open feature, the collected evidence and
  the records already emitted stay as they are.
\<close>

theorem problems_header_only_sets_section:
  "includes_js raw ''PROBLEMS IDENTIFIED'' \<Longrightarrow>
   processLine st raw = st\<lparr>currentSection := Some problems_section\<rparr>"
  by (simp add: processLine_def includes_trim_PROBLEMS)

theorem problems_header_only_sets_section_witness:
  "includes_js ''  ## PROBLEMS IDENTIFIED  '' ''PROBLEMS IDENTIFIED''
   \<and> processLine open_feature_state ''  ## PROBLEMS IDENTIFIED  '' =
       \<lparr>problems = [], features = [], topPriority = None,
        currentSection = Some problems_section, currentProblem = None,
        currentFeature = Some \<lparr>feature = ''A'', why = None, effort = None, priority = None\<rparr>,
        currentEvidence = [''old'']\<rparr>"
proof -
  have h: "includes_js ''  ## PROBLEMS IDENTIFIED  '' ''PROBLEMS IDENTIFIED''" by simp
  from problems_header_only_sets_section [OF h, of open_feature_state] h
  show ?thesis by (simp add: open_feature_state_def)
qed

lemma parser_without_headers:
  "((\<forall>l\<in>set (split_lines text). \<not> includes_js l ''PROBLEMS IDENTIFIED'') \<longrightarrow>
      res_problems (parseAnalysisResults text) = [])
   \<and> ((\<forall>l\<in>set (split_lines text). \<not> includes_js l ''RECOMMENDED FEATURES'') \<longrightarrow>
      res_features (parseAnalysisResults text) = [])
   \<and> ((\<forall>l\<in>set (split_lines text). \<not> includes_js l ''TOP PRIORITY'') \<longrightarrow>
      res_topPriority (parseAnalysisResults text) = None)
   \<and> ((\<forall>l\<in>set (split_lines rest).
          \<not> includes_js l ''PROBLEMS IDENTIFIED'' \<and> \<not> includes_js l ''RECOMMENDED FEATURES'') \<longrightarrow>
      res_problems (parseAnalysisResults text) =
        res_problems (parseAnalysisResults (text @ ''\<newline>TOP PRIORITY\<newline>'' @ rest))
      \<and> res_features (parseAnalysisResults text) =
        res_features (parseAnalysisResults (text @ ''\<newline>TOP PRIORITY\<newline>'' @ rest)))"
proof (intro conjI impI)
  assume "\<forall>l\<in>set (split_lines text). \<not> includes_js l ''PROBLEMS IDENTIFIED''"
  then have "no_problems_yet (scan text)" by (rule scan_no_problems)
  then show "res_problems (parseAnalysisResults text) = []"
    by (simp add: parseAnalysisResults_def no_problems_yet_def Let_def)
next
  assume "\<forall>l\<in>set (split_lines text). \<not> includes_js l ''RECOMMENDED FEATURES''"
  then have "no_features_yet (scan text)" by (rule scan_no_features)
  then show "res_features (parseAnalysisResults text) = []"
    by (simp add: parseAnalysisResults_def no_features_yet_def Let_def pushFeature_def)
next
  assume "\<forall>l\<in>set (split_lines text). \<not> includes_js l ''TOP PRIORITY''"
  then have "no_topPriority_yet (scan text)" by (rule scan_no_topPriority)
  then show "res_topPriority (parseAnalysisResults text) = None"
    by (simp add: parseAnalysisResults_def no_topPriority_yet_def Let_def)
next
  assume a: "\<forall>l\<in>set (split_lines rest).
          \<not> includes_js l ''PROBLEMS IDENTIFIED'' \<and> \<not> includes_js l ''RECOMMENDED FEATURES''"
  let ?s' = "scan (text @ ''\<newline>TOP PRIORITY\<newline>'' @ rest)"
  from a have r: "same_records ((pushFeature (scan text))\<lparr>currentFeature := None\<rparr>) ?s'"
    by (rule scan_cut_topPriority)
  then have "problems (pushProblem ?s') = problems (pushProblem (scan text))"
    by (simp add: same_records_def pushProblem_def Let_def split: option.splits)
  then show "res_problems (parseAnalysisResults text) =
        res_problems (parseAnalysisResults (text @ ''\<newline>TOP PRIORITY\<newline>'' @ rest))"
    by (simp add: parseAnalysisResults_def Let_def)
  from r have "features (pushFeature (pushProblem ?s')) = features (pushFeature (scan text))"
    by (simp add: same_records_def pushFeature_def)
  moreover have "features (pushFeature (pushProblem (scan text))) = features (pushFeature (scan text))"
    by (simp add: pushFeature_def split: option.splits)
  ultimately show "res_features (parseAnalysisResults text) =
        res_features (parseAnalysisResults (text @ ''\<newline>TOP PRIORITY\<newline>'' @ rest))"
    by (simp add: parseAnalysisResults_def Let_def)
qed

lemma labelled_append: "labelled sec label (a @ b) = labelled sec label a @ labelled sec label b"
  by (simp add: labelled_def)

lemma labelled_Nil [simp]: "labelled sec label [] = []"
  by (simp add: labelled_def)

lemma labelled_Cons:
  "labelled sec label ((s, l) # ls) =
     (if s = Some sec \<and> startsWith l label \<and> field_value l label \<noteq> []
      then [field_value l label] else []) @ labelled sec label ls"
  by (simp add: labelled_def)

lemma sections_step:
  "sections (currentSection st) (raw # rest) =
     sections (currentSection st) [raw] @ sections (currentSection (processLine st raw)) rest"
  by (simp add: processLine_def Let_def)

lemma pushProblem_titles:
  "map title (problems (pushProblem st)) = map title (problems st) @ open_title st"
  by (simp add: pushProblem_def open_title_def Let_def split: option.splits)

lemma pushFeature_names:
  "map feature (features (pushFeature st)) = map feature (features st) @ open_feature st"
  by (simp add: pushFeature_def open_feature_def split: option.splits)

lemma open_title_cong: "currentProblem st' = currentProblem st \<Longrightarrow> open_title st' = open_title st"
  by (simp add: open_title_def)

lemma open_feature_cong: "currentFeature st' = currentFeature st \<Longrightarrow> open_feature st' = open_feature st"
  by (simp add: open_feature_def)

lemma problem_line_titles:
  "map title (problems (problem_line st l)) @ open_title (problem_line st l) =
     map title (problems st) @ open_title st @ labelled problems_section ''Problem:'' [(currentSection st, l)]"
  by (auto simp: problem_line_def labelled_Cons pushProblem_titles open_title_def Let_def
      split: option.splits)

lemma feature_line_names:
  "map feature (features (feature_line st l)) @ open_feature (feature_line st l) =
     map feature (features st) @ open_feature st @ labelled features_section ''Feature:'' [(currentSection st, l)]"
  by (auto simp: feature_line_def labelled_Cons pushFeature_names open_feature_def
      split: option.splits)

lemma processLine_titles:
  "map title (problems (processLine st raw)) @ open_title (processLine st raw) =
     map title (problems st) @ open_title st
     @ labelled problems_section ''Problem:'' (sections (currentSection st) [raw])"
proof -
  let ?l = "trim raw"
  have "open_title (topPriority_line (feature_line (problem_line st ?l) ?l) ?l) =
          open_title (problem_line st ?l)"
    by (rule open_title_cong) simp
  then show ?thesis
    using problem_line_titles [of st ?l]
    by (simp add: processLine_def Let_def pushProblem_titles open_title_def)
qed

lemma processLine_names:
  "map feature (features (processLine st raw)) @ open_feature (processLine st raw) =
     map feature (features st) @ open_feature st
     @ labelled features_section ''Feature:'' (sections (currentSection st) [raw])"
proof -
  let ?l = "trim raw"
  have "open_feature (topPriority_line (feature_line (problem_line st ?l) ?l) ?l) =
          open_feature (feature_line (problem_line st ?l) ?l)"
    by (rule open_feature_cong) simp
  moreover have "open_feature (problem_line st ?l) = open_feature st"
    by (rule open_feature_cong) simp
  ultimately show ?thesis
    using feature_line_names [of "problem_line st ?l" ?l]
    by (simp add: processLine_def Let_def pushFeature_names open_feature_def)
qed

lemma foldl_titles:
  "map title (problems (foldl processLine st ls)) @ open_title (foldl processLine st ls) =
     map title (problems st) @ open_title st
     @ labelled problems_section ''Problem:'' (sections (currentSection st) ls)"
proof (induction ls arbitrary: st)
  case Nil
  show ?case by simp
next
  case (Cons raw ls)
  show ?case
    using Cons.IH [of "processLine st raw"] processLine_titles [of st raw]
      sections_step [of st raw ls]
    by (simp add: labelled_append)
qed

lemma foldl_names:
  "map feature (features (foldl processLine st ls)) @ open_feature (foldl processLine st ls) =
     map feature (features st) @ open_feature st
     @ labelled features_section ''Feature:'' (sections (currentSection st) ls)"
proof (induction ls arbitrary: st)
  case Nil
  show ?case by simp
next
  case (Cons raw ls)
  show ?case
    using Cons.IH [of "processLine st raw"] processLine_names [of st raw]
      sections_step [of st raw ls]
    by (simp add: labelled_append)
qed

lemma parse_titles: "map title (res_problems (parseAnalysisResults text)) = found_problems text"
  using foldl_titles [of initial_state "split_lines text"]
  by (simp add: parseAnalysisResults_def Let_def scan_def found_problems_def pushProblem_titles
      initial_state_def open_title_def)

lemma parse_names: "map feature (res_features (parseAnalysisResults text)) = found_features text"
proof -
  have "open_feature (pushProblem (scan text)) = open_feature (scan text)"
    by (rule open_feature_cong) simp
  then show ?thesis
    using foldl_names [of initial_state "split_lines text"]
    by (simp add: parseAnalysisResults_def Let_def scan_def found_features_def pushFeature_names
      initial_state_def open_feature_def)
qed

lemma what_lines_append: "what_lines (a @ b) = what_lines a @ what_lines b"
  by (simp add: what_lines_def)

lemma what_lines_Nil [simp]: "what_lines [] = []"
  by (simp add: what_lines_def)

lemma topPriority_line_what:
  "map_option what (topPriority (topPriority_line st l)) =
     (if what_lines [(currentSection st, l)] = [] then map_option what (topPriority st)
      else Some (last (what_lines [(currentSection st, l)])))"
  by (auto simp: topPriority_line_def what_lines_def split: option.splits)

lemma processLine_what:
  "map_option what (topPriority (processLine st raw)) =
     (if what_lines (sections (currentSection st) [raw]) = [] then map_option what (topPriority st)
      else Some (last (what_lines (sections (currentSection st) [raw]))))"
proof -
  let ?l = "trim raw"
  let ?st = "feature_line (problem_line st ?l) ?l"
  have s: "currentSection ?st = currentSection st" "topPriority ?st = topPriority st"
    by simp_all
  have "map_option what (topPriority (topPriority_line ?st ?l)) =
     (if what_lines [(currentSection st, ?l)] = [] then map_option what (topPriority st)
      else Some (last (what_lines [(currentSection st, ?l)])))"
    using topPriority_line_what [of ?st ?l] by (simp only: s)
  then show ?thesis
    by (cases "what_lines [(currentSection st, ?l)] = []") (simp_all add: processLine_def Let_def)
qed

lemma foldl_what:
  "map_option what (topPriority (foldl processLine st ls)) =
     (if what_lines (sections (currentSection st) ls) = [] then map_option what (topPriority st)
      else Some (last (what_lines (sections (currentSection st) ls))))"
proof (induction ls arbitrary: st)
  case Nil
  show ?case by simp
next
  case (Cons raw ls)
  show ?case
    using Cons.IH [of "processLine st raw"] processLine_what [of st raw]
      sections_step [of st raw ls]
    by (simp add: what_lines_append)
qed

lemma parse_what:
  "map_option what (res_topPriority (parseAnalysisResults text)) =
     (if found_topPriority text = [] then None else Some (last (found_topPriority text)))"
  using foldl_what [of initial_state "split_lines text"]
  by (simp add: parseAnalysisResults_def Let_def scan_def found_topPriority_def
      initial_state_def)

lemma pushProblem_complete:
  "list_all complete_problem (problems st) \<Longrightarrow> list_all complete_problem (problems (pushProblem st))"
  by (simp add: pushProblem_def complete_problem_def Let_def split: option.splits)

lemma problem_line_complete:
  "list_all complete_problem (problems st) \<Longrightarrow> list_all complete_problem (problems (problem_line st l))"
  by (auto simp: problem_line_def Let_def pushProblem_complete split: option.splits)

lemma processLine_complete:
  "list_all complete_problem (problems st) \<Longrightarrow> list_all complete_problem (problems (processLine st raw))"
  by (simp add: processLine_def Let_def pushProblem_complete problem_line_complete)

lemma scan_complete: "list_all complete_problem (problems (scan text))"
proof -
  have "list_all complete_problem (problems initial_state)" by (simp add: initial_state_def)
  moreover have "\<And>st l. l \<in> set (split_lines text) \<Longrightarrow> list_all complete_problem (problems st)
      \<Longrightarrow> list_all complete_problem (problems (processLine st l))"
    by (rule processLine_complete)
  ultimately show ?thesis
    unfolding scan_def
    by (rule foldl_invariant [where I = "\<lambda>st. list_all complete_problem (problems st)", rotated])
qed

lemma parse_complete: "list_all complete_problem (res_problems (parseAnalysisResults text))"
  using pushProblem_complete [OF scan_complete [of "text"]]
  by (simp add: parseAnalysisResults_def Let_def)

text \<open>
  C7. The parser returns a result for every input; no operation of it can throw. The
  problems it returns are the problems the response holds, one for each, in their order,
  each with a title and its evidence; the features it returns are the features the
  response holds, one for each, in their order; the top priority is null when the
  response holds none, and is the last one otherwise. So a section that is missing, or
  holds no line the parser reads, yields an empty collection or a null top priority, and
  a response without a line containing \<open>TOP PRIORITY\<close> still yields every problem and
  feature found. With no line containing \<open>PROBLEMS IDENTIFIED\<close> the problems are empty, with
  none containing \<open>RECOMMENDED FEATURES\<close> the features are empty, with none containing
  \<open>TOP PRIORITY\<close> the top priority is null, and the problems and features of a response
  are those of the same response continued by a top-priority section.
\<close>

theorem parser_returns_found_records:
  "map title (res_problems (parseAnalysisResults text)) = found_problems text
   \<and> list_all complete_problem (res_problems (parseAnalysisResults text))
   \<and> map feature (res_features (parseAnalysisResults text)) = found_features text
   \<and> map_option what (res_topPriority (parseAnalysisResults text)) =
       (if found_topPriority text = [] then None else Some (last (found_topPriority text)))
   \<and> ((\<forall>l\<in>set (split_lines text). \<not> includes_js l ''PROBLEMS IDENTIFIED'') \<longrightarrow>
      res_problems (parseAnalysisResults text) = [])
   \<and> ((\<forall>l\<in>set (split_lines text). \<not> includes_js l ''RECOMMENDED FEATURES'') \<longrightarrow>
      res_features (parseAnalysisResults text) = [])
   \<and> ((\<forall>l\<in>set (split_lines text). \<not> includes_js l ''TOP PRIORITY'') \<longrightarrow>
      res_topPriority (parseAnalysisResults text) = None)
   \<and> ((\<forall>l\<in>set (split_lines rest).
          \<not> includes_js l ''PROBLEMS IDENTIFIED'' \<and> \<not> includes_js l ''RECOMMENDED FEATURES'') \<longrightarrow>
      res_problems (parseAnalysisResults text) =
        res_problems (parseAnalysisResults (text @ ''\<newline>TOP PRIORITY\<newline>'' @ rest))
      \<and> res_features (parseAnalysisResults text) =
        res_features (parseAnalysisResults (text @ ''\<newline>TOP PRIORITY\<newline>'' @ rest)))"
  using parse_titles [of "text"] parse_complete [of "text"] parse_names [of "text"]
    parse_what [of "text"] parser_without_headers [of "text" rest]
  by blast

theorem parser_returns_found_records_witness:
  "found_problems no_top_response = [''X''] \<and> found_features no_top_response = [''A'']
   \<and> found_topPriority no_top_response = []
   \<and> res_problems (parseAnalysisResults no_top_response) =
       [\<lparr>title = ''X'', mentionedIn = None, impact = None, evidence = Some [''e'']\<rparr>]
   \<and> res_features (parseAnalysisResults no_top_response) =
       [\<lparr>feature = ''A'', why = None, effort = None, priority = None\<rparr>]
   \<and> res_topPriority (parseAnalysisResults no_top_response) = None
   \<and> found_problems unparsable_response = [] \<and> found_features unparsable_response = []
   \<and> found_topPriority unparsable_response = []
   \<and> res_problems (parseAnalysisResults unparsable_response) = []
   \<and> res_features (parseAnalysisResults unparsable_response) = []
   \<and> res_topPriority (parseAnalysisResults unparsable_response) = None
   \<and> res_problems (parseAnalysisResults ''Sorry, no analysis.'') = []
   \<and> res_features (parseAnalysisResults ''Sorry, no analysis.'') = []"
proof -
  have a: "\<forall>l\<in>set (split_lines ''Sorry, no analysis.''). \<not> includes_js l ''PROBLEMS IDENTIFIED''"
    by simp
  have b: "\<forall>l\<in>set (split_lines ''Sorry, no analysis.''). \<not> includes_js l ''RECOMMENDED FEATURES''"
    by simp
  have c: "\<forall>l\<in>set (split_lines no_top_response). \<not> includes_js l ''TOP PRIORITY''"
    by (simp add: no_top_response_def)
  have f1: "found_problems no_top_response = [''X'']" "found_features no_top_response = [''A'']"
    "found_topPriority no_top_response = []"
    by code_simp+
  have f2: "found_problems unparsable_response = []" "found_features unparsable_response = []"
    "found_topPriority unparsable_response = []"
    by code_simp+
  have p: "res_problems (parseAnalysisResults no_top_response) =
             [\<lparr>title = ''X'', mentionedIn = None, impact = None, evidence = Some [''e'']\<rparr>]"
    by code_simp
  have f: "res_features (parseAnalysisResults no_top_response) =
             [\<lparr>feature = ''A'', why = None, effort = None, priority = None\<rparr>]"
    by code_simp
  from parser_returns_found_records [of "''Sorry, no analysis.''" "[]"]
    parser_returns_found_records [of no_top_response "[]"]
    parser_returns_found_records [of unparsable_response "[]"] a b c f1 f2 p f
  show ?thesis by simp
qed


section \<open>Properties of the request handler\<close>

lemma filterValid_blank:
  "\<forall>x\<in>set xs. \<not> truthy x \<or> (\<exists>s. x = JStr s \<and> trim s = []) \<Longrightarrow> filterValid xs = Inr []"
  by (induction xs) auto

lemma filterValid_has_content:
  "filterValid xs = Inr valid \<Longrightarrow> map JStr valid = filter has_content xs"
proof (induction xs arbitrary: valid)
  case Nil
  then show ?case by simp
next
  case (Cons x xs)
  show ?case
  proof (cases "truthy x")
    case False
    then have "\<not> has_content x" by (cases x) (auto simp: has_content_def)
    with False Cons show ?thesis by simp
  next
    case True
    with Cons.prems obtain s r where x: "x = JStr s" and r: "filterValid xs = Inr r"
      and v: "valid = (if length (trim s) > 0 then s # r else r)"
      by (cases x; cases "filterValid xs") auto
    from Cons.IH [OF r] x v show ?thesis by (simp add: has_content_def)
  qed
qed

lemma POST_no_interviews:
  assumes "destructure_interviews parsed = Inr iv"
    and "iv = None \<or> (\<exists>v. iv = Some v \<and> \<not> isArray v) \<or> iv = Some (JArr [])"
  shows "POST (Inr parsed) remote w =
           (\<lparr>http_status = 400,
             body = Error_body ''Please provide at least one interview transcript''\<rparr>, w)"
  using assms by (auto simp: POST_def)

lemma POST_no_valid:
  assumes "destructure_interviews parsed = Inr (Some (JArr xs))" "xs \<noteq> []"
    and "\<forall>x\<in>set xs. \<not> truthy x \<or> (\<exists>s. x = JStr s \<and> trim s = [])"
  shows "POST (Inr parsed) remote w =
           (\<lparr>http_status = 400, body = Error_body ''No valid interview transcripts provided''\<rparr>, w)"
  using assms(1,2) filterValid_blank [OF assms(3)] by (simp add: POST_def)

text \<open>
  When the body can be read and \<open>interviews\<close> is absent, not an array or an empty array, the
  handler answers 400 with the message asking for a transcript; when it is a non-empty
  array whose entries are all falsy or strings that are empty after trimming, it answers
  400 with the message that no transcript is valid. In both cases the world is unchanged:
  the remote service has not been invoked.
\<close>

lemma POST_rejects_readable_body:
  "(destructure_interviews parsed = Inr iv
      \<and> (iv = None \<or> (\<exists>v. iv = Some v \<and> \<not> isArray v) \<or> iv = Some (JArr [])) \<longrightarrow>
      POST (Inr parsed) remote w =
        (\<lparr>http_status = 400,
          body = Error_body ''Please provide at least one interview transcript''\<rparr>, w))
   \<and> (destructure_interviews parsed = Inr (Some (JArr xs)) \<and> xs \<noteq> []
      \<and> (\<forall>x\<in>set xs. \<not> truthy x \<or> (\<exists>s. x = JStr s \<and> trim s = [])) \<longrightarrow>
      POST (Inr parsed) remote w =
        (\<lparr>http_status = 400, body = Error_body ''No valid interview transcripts provided''\<rparr>, w))"
  using POST_no_interviews [of parsed iv remote w] POST_no_valid [of parsed xs remote w]
  by blast

lemma POST_rejects_readable_body_example:
  "destructure_interviews (JObj []) = Inr None
   \<and> POST (Inr (JObj [])) empty_answer world0 =
       (\<lparr>http_status = 400,
         body = Error_body ''Please provide at least one interview transcript''\<rparr>, world0)
   \<and> destructure_interviews blank_request = Inr (Some (JArr [JStr ''   '', JStr [], JNull]))
   \<and> trim ''   '' = [] \<and> trim [] = []
   \<and> POST (Inr blank_request) empty_answer world0 =
       (\<lparr>http_status = 400, body = Error_body ''No valid interview transcripts provided''\<rparr>,
        world0)"
proof -
  have d1: "destructure_interviews (JObj []) = Inr None" by simp
  have d2: "destructure_interviews blank_request = Inr (Some (JArr [JStr ''   '', JStr [], JNull]))"
    by (simp add: blank_request_def)
  have t: "trim ''   '' = []" by (simp add: trim_def isWhiteSpace_def)
  from POST_rejects_readable_body [of "JObj []" None empty_answer world0 "[]"]
    POST_rejects_readable_body [of blank_request None empty_answer world0 "[JStr ''   '', JStr [], JNull]"]
    d1 d2 t
  show ?thesis by simp
qed

text \<open>
  C4 fails on the code. When the body of the request is the JSON value \<open>null\<close>, no
  \<open>interviews\<close> value is there to read, the destructuring throws before the validation is
  reached, and the \<open>catch\<close> block answers 500 with the generic message, not 400 with the
  message asking for a transcript; the same holds of a body that is not JSON, where
  \<open>request.json()\<close> rejects. The remote service is not invoked.
\<close>

theorem POST_null_body_not_rejected_as_invalid:
  "POST (Inr JNull) remote w =
     (\<lparr>http_status = 500, body = Error_body ''Failed to analyze interviews. Please try again.''\<rparr>, w)
   \<and> POST (Inl syntax_error) remote w =
     (\<lparr>http_status = 500, body = Error_body ''Failed to analyze interviews. Please try again.''\<rparr>, w)
   \<and> fst (POST (Inr JNull) remote w) \<noteq>
     \<lparr>http_status = 400, body = Error_body ''Please provide at least one interview transcript''\<rparr>"
  by (simp add: POST_def TypeError_def handle_error_def syntax_error_def)

theorem POST_null_body_not_rejected_as_invalid_witness:
  "POST (Inr JNull) empty_answer world0 =
     (\<lparr>http_status = 500, body = Error_body ''Failed to analyze interviews. Please try again.''\<rparr>,
      world0)
   \<and> POST (Inl syntax_error) empty_answer world0 =
     (\<lparr>http_status = 500, body = Error_body ''Failed to analyze interviews. Please try again.''\<rparr>,
      world0)"
  using POST_null_body_not_rejected_as_invalid [of empty_answer world0] by simp

lemma firstMatch_template:
  "firstMatch ''{interviews}'' ANALYSIS_PROMPT = Some (template_head, template_tail)"
proof -
  have "CHR ''{'' \<notin> set template_head" by (simp add: template_head_def)
  then have "firstMatch (CHR ''{'' # ''interviews}'')
               (template_head @ (CHR ''{'' # ''interviews}'') @ template_tail) =
             Some (template_head, template_tail)"
    by (rule firstMatch_first)
  then show ?thesis by (simp add: ANALYSIS_PROMPT_def)
qed

lemma template_single_placeholder:
  "\<not> includes_js (template_head @ template_tail) ''{interviews}''"
proof -
  have "CHR ''{'' \<notin> set (template_head @ template_tail)"
    by (simp add: template_head_def template_tail_def)
  then show ?thesis by (rule includes_needs_first)
qed

lemma prompt_verbatim:
  "CHR ''$'' \<notin> set (interviewsText validInterviews) \<Longrightarrow>
   prompt validInterviews = template_head @ interviewsText validInterviews @ template_tail"
  by (simp add: prompt_def replace_def firstMatch_template getSubstitution_plain)

text \<open>
  C8 fails on the code. The transcripts are serialised as the claim says, but \<open>replace\<close>
  reads the serialised text as a replacement template: in the prompt, the \<open>$$$\<close> of this
  transcript has become \<open>$$\<close>, so the prompt is not the template with the serialised
  transcripts in the place of its placeholder.
\<close>

theorem prompt_expands_dollar_patterns:
  "interviewsText dollar_transcripts = ''--- Interview 1 ---\<newline>We pay $$$ for this''
   \<and> prompt dollar_transcripts =
       template_head @ ''--- Interview 1 ---\<newline>We pay $$ for this'' @ template_tail
   \<and> prompt dollar_transcripts \<noteq>
       template_head @ interviewsText dollar_transcripts @ template_tail"
proof -
  have i: "interviewsText dollar_transcripts = ''--- Interview 1 ---\<newline>We pay $$$ for this''"
    by code_simp
  have g: "getSubstitution ''{interviews}'' template_head template_tail
             ''--- Interview 1 ---\<newline>We pay $$$ for this'' =
           ''--- Interview 1 ---\<newline>We pay $$ for this''"
    by simp
  have p: "prompt dollar_transcripts =
       template_head @ ''--- Interview 1 ---\<newline>We pay $$ for this'' @ template_tail"
    by (simp only: prompt_def replace_def firstMatch_template i g option.case prod.case)
  from i p show ?thesis by simp
qed

text \<open>
  C10. When the remote call returns a message whose content is empty or starts with a
  block that is not a text block, the handler answers 200 with \<open>success: true\<close>, an empty
  \<open>analysis\<close> and, as \<open>interviewCount\<close>, the number of entries with content.
\<close>

theorem POST_text_free_response:
  assumes "destructure_interviews parsed = Inr (Some (JArr xs))"
    and "filterValid xs = Inr validInterviews" and "validInterviews \<noteq> []"
    and "retryWithBackoff
           (remote \<lparr>model = ''claude-sonnet-4-20250514'', max_tokens = 4000,
                    messages = [(''user'', prompt validInterviews)]\<rparr>) 3 1500 w = (Inr msg, w')"
    and "content msg = Some [] \<or> (\<exists>b bs. content msg = Some (b # bs) \<and> block_type b \<noteq> ''text'')"
  shows "POST (Inr parsed) remote w =
           (\<lparr>http_status = 200,
             body = Analysis_body True [] (length (filter has_content xs))\<rparr>, w')"
proof -
  from assms(2,3) have "xs \<noteq> []" by auto
  moreover from assms(5) have "analysis_of msg = []" by (auto simp: analysis_of_def)
  ultimately have "POST (Inr parsed) remote w =
           (\<lparr>http_status = 200, body = Analysis_body True [] (length validInterviews)\<rparr>, w')"
    using assms(1-4) by (simp add: POST_def)
  moreover have "length validInterviews = length (filter has_content xs)"
    using filterValid_has_content [OF assms(2)] by (metis length_map)
  ultimately show ?thesis by simp
qed

theorem POST_text_free_response_witness:
  "destructure_interviews mixed_request = Inr (Some (JArr [JStr ''We pay a lot'', JStr '' '', JNull]))
   \<and> filterValid [JStr ''We pay a lot'', JStr '' '', JNull] = Inr [''We pay a lot'']
   \<and> POST (Inr mixed_request) empty_answer world0 =
       (\<lparr>http_status = 200, body = Analysis_body True [] 1\<rparr>, \<lparr>calls = 1, trace = [Invoke]\<rparr>)
   \<and> POST (Inr mixed_request) tool_answer world0 =
       (\<lparr>http_status = 200, body = Analysis_body True [] 1\<rparr>,
        \<lparr>calls = 2, trace = [Invoke, Sleep (Finite 1500), Invoke]\<rparr>)"
proof -
  let ?xs = "[JStr ''We pay a lot'', JStr '' '', JNull]"
  let ?p = "\<lparr>model = ''claude-sonnet-4-20250514'', max_tokens = 4000,
             messages = [(''user'', prompt [''We pay a lot''])]\<rparr>"
  have d: "destructure_interviews mixed_request = Inr (Some (JArr ?xs))"
    by (simp add: mixed_request_def)
  have f: "filterValid ?xs = Inr [''We pay a lot'']"
    by (simp add: trim_def isWhiteSpace_def)
  have n: "[''We pay a lot''] \<noteq> []" by simp
  have c: "length (filter has_content ?xs) = 1"
    by (simp add: has_content_def trim_def isWhiteSpace_def)
  have r1: "retryWithBackoff (empty_answer ?p) 3 1500 world0 =
              (Inr \<lparr>content = Some []\<rparr>, \<lparr>calls = 1, trace = [Invoke]\<rparr>)"
    by (simp add: retryWithBackoff_def retry_loop_success empty_answer_def world0_def)
  have r2: "retryWithBackoff (tool_answer ?p) 3 1500 world0 =
              (Inr \<lparr>content = Some [\<lparr>block_type = ''tool_use'', block_text = []\<rparr>]\<rparr>,
               \<lparr>calls = 2, trace = [Invoke, Sleep (Finite 1500), Invoke]\<rparr>)"
    by (simp add: retryWithBackoff_def retry_loop_retry [where e = overloaded_error]
        retry_loop_success tool_answer_def world0_def isOverloaded_def overloaded_error_def
        delay_def)
  have m1: "content \<lparr>content = Some []\<rparr> = Some [] \<or>
      (\<exists>b bs. content \<lparr>content = Some []\<rparr> = Some (b # bs) \<and> block_type b \<noteq> ''text'')"
    by simp
  have m2: "content \<lparr>content = Some [\<lparr>block_type = ''tool_use'', block_text = []\<rparr>]\<rparr> = Some [] \<or>
      (\<exists>b bs. content \<lparr>content = Some [\<lparr>block_type = ''tool_use'', block_text = []\<rparr>]\<rparr>
                 = Some (b # bs) \<and> block_type b \<noteq> ''text'')"
    by simp
  from POST_text_free_response [where remote = empty_answer, OF d f n r1 m1]
    POST_text_free_response [where remote = tool_answer, OF d f n r2 m2] d f c
  show ?thesis by simp
qed

end
